theory Spec2Isabelle
  imports Complex_Main
begin

section \<open>Python values and the operations the module applies to them\<close>

text \<open>
  The module \<^verbatim>\<open>fetch_reply.py\<close> works on decoded JSON: dictionaries, lists, strings,
  numbers, booleans and \<^verbatim>\<open>None\<close>. One datatype holds them all, so that a field of
  the wrong shape is an input of the model as it is an input of the code. A dictionary is
  an association list whose first binding of a key is the one that counts. A
  \<^typ>\<open>char\<close> stands for one code point (the first 256 of them); numbers are exact
  rationals, and the module only compares them and adds them.
\<close>

datatype json =
    JNull
  | JBool bool
  | JNum rat
  | JStr string
  | JArr "json list"
  | JObj "(string \<times> json) list"

type_synonym pydict = "(string \<times> json) list"

text \<open>The exceptions the module raises, catches or lets through.\<close>

datatype exn =
    AttributeError
  | TypeError
  | KeyError
  | IndexError
  | ValueError
  | RuntimeError
  | JSONDecodeError
  | TokenError
  | RequestsException
  | RequestsHTTPError nat
  | HTTPStatusError nat
  | RequestError "nat option"
  | OtherException

type_synonym 'a result = "exn + 'a"

definition bind :: "'a result \<Rightarrow> ('a \<Rightarrow> 'b result) \<Rightarrow> 'b result" where
  "bind m f = (case m of Inl e \<Rightarrow> Inl e | Inr v \<Rightarrow> f v)"

text \<open>Truth value testing: \<^verbatim>\<open>None\<close>, \<^verbatim>\<open>False\<close>, zero and empty containers are false.\<close>

fun truthy :: "json \<Rightarrow> bool" where
  "truthy JNull = False"
| "truthy (JBool b) = b"
| "truthy (JNum n) = (n \<noteq> 0)"
| "truthy (JStr s) = (s \<noteq> [])"
| "truthy (JArr xs) = (xs \<noteq> [])"
| "truthy (JObj kv) = (kv \<noteq> [])"

text \<open>\<^verbatim>\<open>d.get(k, default)\<close> of a dictionary.\<close>

definition dict_get :: "pydict \<Rightarrow> string \<Rightarrow> json \<Rightarrow> json" where
  "dict_get d k dflt = (case map_of d k of Some v \<Rightarrow> v | None \<Rightarrow> dflt)"

text \<open>\<^verbatim>\<open>x.get(k, default)\<close> of any value: only a dictionary has the method.\<close>

fun py_get :: "json \<Rightarrow> string \<Rightarrow> json \<Rightarrow> json result" where
  "py_get (JObj d) k dflt = Inr (dict_get d k dflt)"
| "py_get _ k dflt = Inl AttributeError"

text \<open>\<^verbatim>\<open>len(x)\<close>.\<close>

fun py_len :: "json \<Rightarrow> nat result" where
  "py_len (JStr s) = Inr (length s)"
| "py_len (JArr xs) = Inr (length xs)"
| "py_len (JObj d) = Inr (length (remdups (map fst d)))"
| "py_len _ = Inl TypeError"

text \<open>Iteration (\<^verbatim>\<open>for x in v\<close>): a list gives its elements, a string its characters,
  a dictionary its keys; nothing else is iterable.\<close>

fun py_iter :: "json \<Rightarrow> json list result" where
  "py_iter (JArr xs) = Inr xs"
| "py_iter (JStr s) = Inr (map (\<lambda>c. JStr [c]) s)"
| "py_iter (JObj d) = Inr (map JStr (remdups (map fst d)))"
| "py_iter _ = Inl TypeError"

text \<open>\<^verbatim>\<open>v[0]\<close>.\<close>

fun py_index0 :: "json \<Rightarrow> json result" where
  "py_index0 (JArr []) = Inl IndexError"
| "py_index0 (JArr (x # xs)) = Inr x"
| "py_index0 (JStr []) = Inl IndexError"
| "py_index0 (JStr (c # cs)) = Inr (JStr [c])"
| "py_index0 (JObj d) = Inl KeyError"
| "py_index0 _ = Inl TypeError"

text \<open>\<^verbatim>\<open>k in v\<close> for a string \<open>k\<close>: a key of a dictionary, an element of a list, a
  substring of a string.\<close>

fun is_substring :: "string \<Rightarrow> string \<Rightarrow> bool" where
  "is_substring k [] = (k = [])"
| "is_substring k (c # cs) = (take (length k) (c # cs) = k \<or> is_substring k cs)"

fun py_contains :: "string \<Rightarrow> json \<Rightarrow> bool result" where
  "py_contains k (JObj d) = Inr (k \<in> set (map fst d))"
| "py_contains k (JArr xs) = Inr (JStr k \<in> set xs)"
| "py_contains k (JStr s) = Inr (is_substring k s)"
| "py_contains k _ = Inl TypeError"

subsection \<open>Strings\<close>

text \<open>Whitespace as \<^verbatim>\<open>str.isspace\<close> and the pattern \<^verbatim>\<open>\s\<close> see it, on the first 256
  code points.\<close>

definition is_space :: "char \<Rightarrow> bool" where
  "is_space c = (let n = (of_char c :: nat) in
     (9 \<le> n \<and> n \<le> 13) \<or> (28 \<le> n \<and> n \<le> 32) \<or> n = 133 \<or> n = 160)"

definition strip :: "string \<Rightarrow> string" where
  "strip s = rev (dropWhile is_space (rev (dropWhile is_space s)))"

text \<open>\<^verbatim>\<open>str.lower\<close> on the first 256 code points: the letters \<open>A\<close> to \<open>Z\<close> and the
  accented capitals \<open>0xC0\<close> to \<open>0xDE\<close> (without the sign \<open>0xD7\<close>) move up by 32.\<close>

definition upper_chars :: "char list" where
  "upper_chars = ''ABCDEFGHIJKLMNOPQRSTUVWXYZ'' @
       [CHR 0xC0, CHR 0xC1, CHR 0xC2, CHR 0xC3, CHR 0xC4, CHR 0xC5, CHR 0xC6, CHR 0xC7, CHR
        0xC8, CHR 0xC9, CHR 0xCA, CHR 0xCB, CHR 0xCC, CHR 0xCD, CHR 0xCE, CHR 0xCF, CHR
        0xD0, CHR 0xD1, CHR 0xD2, CHR 0xD3, CHR 0xD4, CHR 0xD5, CHR 0xD6, CHR 0xD8, CHR
        0xD9, CHR 0xDA, CHR 0xDB, CHR 0xDC, CHR 0xDD, CHR 0xDE]"

definition lower_chars :: "char list" where
  "lower_chars = ''abcdefghijklmnopqrstuvwxyz'' @
       [CHR 0xE0, CHR 0xE1, CHR 0xE2, CHR 0xE3, CHR 0xE4, CHR 0xE5, CHR 0xE6, CHR 0xE7, CHR
        0xE8, CHR 0xE9, CHR 0xEA, CHR 0xEB, CHR 0xEC, CHR 0xED, CHR 0xEE, CHR 0xEF, CHR
        0xF0, CHR 0xF1, CHR 0xF2, CHR 0xF3, CHR 0xF4, CHR 0xF5, CHR 0xF6, CHR 0xF8, CHR
        0xF9, CHR 0xFA, CHR 0xFB, CHR 0xFC, CHR 0xFD, CHR 0xFE]"

definition lower_char :: "char \<Rightarrow> char" where
  "lower_char c = (case map_of (zip upper_chars lower_chars) c of Some l \<Rightarrow> l | None \<Rightarrow> c)"

definition lower :: "string \<Rightarrow> string" where
  "lower s = map lower_char s"

fun py_strip :: "json \<Rightarrow> string result" where
  "py_strip (JStr s) = Inr (strip s)"
| "py_strip _ = Inl AttributeError"

fun py_lower :: "json \<Rightarrow> string result" where
  "py_lower (JStr s) = Inr (lower s)"
| "py_lower _ = Inl AttributeError"

section \<open>Content normaliser\<close>

subsection \<open>\<^verbatim>\<open>_html_to_text\<close>\<close>

text \<open>\<^verbatim>\<open>re.sub(r'<[^>]+>', '', html)\<close>: a tag is a \<open><\<close>, at least one character that is
  not \<open>>\<close>, and the next \<open>>\<close>.\<close>

function strip_tags :: "string \<Rightarrow> string" where
  "strip_tags [] = []"
| "strip_tags (c # cs) =
     (if c = CHR ''<'' \<and> takeWhile (\<lambda>x. x \<noteq> CHR ''>'') cs \<noteq> []
          \<and> dropWhile (\<lambda>x. x \<noteq> CHR ''>'') cs \<noteq> []
      then strip_tags (tl (dropWhile (\<lambda>x. x \<noteq> CHR ''>'') cs))
      else c # strip_tags cs)"
  by pat_completeness auto
termination
proof (relation "measure length")
  fix c :: char and cs :: string
  have "length (tl (dropWhile (\<lambda>x. x \<noteq> CHR ''>'') cs)) \<le> length cs"
    using length_dropWhile_le [of "\<lambda>x. x \<noteq> CHR ''>''" cs] by simp
  then show "(tl (dropWhile (\<lambda>x. x \<noteq> CHR ''>'') cs), c # cs) \<in> measure length"
    by simp
qed auto

text \<open>\<^verbatim>\<open>text.replace(old, new)\<close>, left to right, for a non-empty \<open>old\<close>.\<close>

function replace_str :: "string \<Rightarrow> string \<Rightarrow> string \<Rightarrow> string" where
  "replace_str old new [] = []"
| "replace_str old new (c # cs) =
     (if old \<noteq> [] \<and> take (length old) (c # cs) = old
      then new @ replace_str old new (drop (length old - 1) cs)
      else c # replace_str old new cs)"
  by pat_completeness auto
termination
  by (relation "measure (\<lambda>(old, new, s). length s)") auto

definition html_entities :: "(string \<times> string) list" where
  "html_entities =
     [(''&nbsp;'', '' ''), (''&amp;'', ''&''), (''&lt;'', ''<''), (''&gt;'', ''>''),
      (''&quot;'', [CHR 0x22]), (''&#39;'', [CHR 0x27]), (''&apos;'', [CHR 0x27]),
      ([CHR 0x0D, CHR 0x0A], [CHR 0x0A]), ([CHR 0x0D], [CHR 0x0A])]"

text \<open>\<^verbatim>\<open>re.sub(r'\n\s*\n', '\n\n', text)\<close>: from a newline, the longest run of whitespace
  that ends in a newline.\<close>

function collapse_blank :: "string \<Rightarrow> string" where
  "collapse_blank [] = []"
| "collapse_blank (c # cs) =
     (let ws = takeWhile is_space cs in
      if c = CHR 0x0A \<and> CHR 0x0A \<in> set ws
      then CHR 0x0A # CHR 0x0A #
           collapse_blank
             (drop (length ws - length (takeWhile (\<lambda>x. x \<noteq> CHR 0x0A) (rev ws))) cs)
      else c # collapse_blank cs)"
  by pat_completeness auto
termination
  by (relation "measure length") auto

text \<open>\<^verbatim>\<open>re.sub(r'[ \t]+', ' ', text)\<close>.\<close>

function collapse_spaces :: "string \<Rightarrow> string" where
  "collapse_spaces [] = []"
| "collapse_spaces (c # cs) =
     (if c = CHR '' '' \<or> c = CHR 0x09
      then CHR '' '' # collapse_spaces (dropWhile (\<lambda>x. x = CHR '' '' \<or> x = CHR 0x09) cs)
      else c # collapse_spaces cs)"
  by pat_completeness auto
termination
proof (relation "measure length")
  fix c :: char and cs :: string
  show "(dropWhile (\<lambda>x. x = CHR '' '' \<or> x = CHR 0x09) cs, c # cs) \<in> measure length"
    using length_dropWhile_le [of "\<lambda>x. x = CHR '' '' \<or> x = CHR 0x09" cs] by simp
qed auto

definition html_to_text :: "string \<Rightarrow> string" where
  "html_to_text html_content =
     (if html_content = [] then []
      else strip (collapse_spaces (collapse_blank
             (foldl (\<lambda>text (entity, replacement). replace_str entity replacement text)
                (strip_tags html_content) html_entities))))"

subsection \<open>\<^verbatim>\<open>_extract_clean_email_content\<close>\<close>

text \<open>
  The test \<^verbatim>\<open>unique_body and unique_body.get("content") and full_body and
  full_body.get("content")\<close>, evaluated left to right; a truthy value that is not a
  dictionary has no \<^verbatim>\<open>get\<close>.
\<close>

definition both_have_content :: "json \<Rightarrow> json \<Rightarrow> bool result" where
  "both_have_content unique_body full_body =
     (if \<not> truthy unique_body then Inr False
      else bind (py_get unique_body ''content'' JNull) (\<lambda>uc.
        if \<not> truthy uc then Inr False
        else if \<not> truthy full_body then Inr False
        else bind (py_get full_body ''content'' JNull) (\<lambda>fc. Inr (truthy fc))))"

text \<open>
  The thread test. The source compares \<^verbatim>\<open>len(full_content) > len(unique_content) * 1.2\<close>
  in double precision; for lengths below \<open>2\<^sup>4\<^sup>0\<close> the rounded product is on the same side
  of every integer as the exact one, so the comparison is \<open>6 * U < 5 * F\<close>.
\<close>

definition detect_threads :: "json \<Rightarrow> json \<Rightarrow> bool result" where
  "detect_threads unique_body full_body =
     bind (both_have_content unique_body full_body) (\<lambda>both.
       if both then
         bind (py_get unique_body ''content'' (JStr [])) (\<lambda>uc.
         bind (py_strip uc) (\<lambda>unique_content.
         bind (py_get full_body ''content'' (JStr [])) (\<lambda>fc.
         bind (py_strip fc) (\<lambda>full_content.
           Inr (length unique_content > 0
                \<and> 6 * length unique_content < 5 * length full_content)))))
       else Inr False)"

text \<open>
  The two blocks that read a body variant (steps 1 and 2 of the source) differ only in
  the tags they set; \<open>cur\<close> is the pair \<^verbatim>\<open>(clean_body, data_source)\<close> before the block.
\<close>

definition body_variant ::
  "string \<Rightarrow> string \<Rightarrow> json \<Rightarrow> string \<times> string \<Rightarrow> (string \<times> string) result" where
  "body_variant tag_text tag_html body cur =
     (if \<not> truthy body then Inr cur
      else bind (py_get body ''content'' JNull) (\<lambda>c.
        if \<not> truthy c then Inr cur
        else bind (py_get body ''content'' (JStr [])) (\<lambda>c'.
             bind (py_strip c') (\<lambda>content.
             bind (py_get body ''contentType'' (JStr [])) (\<lambda>t.
             bind (py_lower t) (\<lambda>content_type.
               if content_type = ''text'' then Inr (content, tag_text)
               else if content_type = ''html'' \<and> content \<noteq> []
               then Inr (html_to_text content, tag_html)
               else Inr cur))))))"

text \<open>The body of the \<^verbatim>\<open>try\<close> block.\<close>

definition extract_body :: "pydict \<Rightarrow> (string \<times> string \<times> bool) result" where
  "extract_body msg =
     (let unique_body = dict_get msg ''uniqueBody'' (JObj []);
          full_body = dict_get msg ''body'' (JObj [])
      in bind (detect_threads unique_body full_body) (\<lambda>had_threads.
         bind (body_variant ''uniqueBody_text'' ''uniqueBody_html_converted'' unique_body
                 ([], [])) (\<lambda>cur1.
         bind (if fst cur1 = []
               then body_variant ''body_text'' ''body_html_converted'' full_body cur1
               else Inr cur1) (\<lambda>cur2.
         bind (if fst cur2 = []
               then bind (py_strip (dict_get msg ''bodyPreview'' (JStr []))) (\<lambda>p.
                      Inr (p, ''bodyPreview_fallback''))
               else Inr cur2) (\<lambda>cur3.
           Inr (fst cur3, snd cur3, had_threads))))))"

text \<open>The whole function: any exception of the block gives the raw preview, the tag
  \<^verbatim>\<open>error_fallback\<close> and no thread.\<close>

definition extract_clean_email_content :: "pydict \<Rightarrow> json \<times> string \<times> bool" where
  "extract_clean_email_content msg =
     (case extract_body msg of
        Inr (clean_body, data_source, had_threads) \<Rightarrow> (JStr clean_body, data_source, had_threads)
      | Inl e \<Rightarrow> (dict_get msg ''bodyPreview'' (JStr []), ''error_fallback'', False))"

subsection \<open>The thread rule as the specification words it\<close>







section \<open>Backoff executor\<close>

text \<open>
  \<^verbatim>\<open>retry_with_backoff(max_retries, initial_backoff)\<close> wraps a callable. The callable is
  given by what its successive invocations do: \<open>func k\<close> is the outcome of invocation
  number \<open>k\<close>, a value or the exception it raises. \<open>rnd k\<close> is the number that
  \<^verbatim>\<open>random.random()\<close> returns at the sleep after attempt \<open>k\<close>. A run is the outcome of
  the wrapper, the number of invocations made and the sleeps taken in between.

  The handler is \<^verbatim>\<open>except httpx.RequestError\<close>: it sees exceptions of that class only,
  and reads the status code of their \<^verbatim>\<open>response\<close> attribute when they have one
  (\<open>RequestError (Some status)\<close>). Any other exception leaves the wrapper at once; that
  includes \<open>HTTPStatusError\<close>, which \<^verbatim>\<open>raise_for_status()\<close> raises for a 4xx or 5xx
  response and which the module handles in \<^verbatim>\<open>except\<close> clauses of its own.
\<close>

record 'a retry_run =
  outcome :: "'a result"
  calls :: nat
  sleeps :: "rat list"

text \<open>\<^verbatim>\<open>status_code and 400 <= status_code < 500 and status_code not in (429, 408)\<close>\<close>

definition client_error :: "nat option \<Rightarrow> bool" where
  "client_error status_code =
     (case status_code of
        None \<Rightarrow> False
      | Some s \<Rightarrow> s \<noteq> 0 \<and> 400 \<le> s \<and> s < 500 \<and> s \<noteq> 429 \<and> s \<noteq> 408)"

text \<open>The \<^verbatim>\<open>for attempt in range(max_retries)\<close> loop; \<open>n\<close> is the number of iterations
  left, and the last two equations are the statements after the loop.\<close>

fun retry_loop ::
  "nat \<Rightarrow> (nat \<Rightarrow> 'a result) \<Rightarrow> (nat \<Rightarrow> rat) \<Rightarrow> nat \<Rightarrow> nat \<Rightarrow> rat \<Rightarrow> exn option \<Rightarrow> rat list
   \<Rightarrow> 'a retry_run" where
  "retry_loop max_retries func rnd 0 attempt backoff None sl =
     \<lparr>outcome = Inl RuntimeError, calls = attempt, sleeps = sl\<rparr>"
| "retry_loop max_retries func rnd 0 attempt backoff (Some last_exception) sl =
     \<lparr>outcome = Inl last_exception, calls = attempt, sleeps = sl\<rparr>"
| "retry_loop max_retries func rnd (Suc n) attempt backoff last_exception sl =
     (case func attempt of
        Inr v \<Rightarrow> \<lparr>outcome = Inr v, calls = Suc attempt, sleeps = sl\<rparr>
      | Inl (RequestError status_code) \<Rightarrow>
          if client_error status_code
          then \<lparr>outcome = Inl (RequestError status_code), calls = Suc attempt, sleeps = sl\<rparr>
          else if attempt = max_retries - 1
          then \<lparr>outcome = Inl (RequestError status_code), calls = Suc attempt, sleeps = sl\<rparr>
          else retry_loop max_retries func rnd n (Suc attempt) (backoff * 2)
                 (Some (RequestError status_code))
                 (sl @ [backoff * (1 + (1 / 10) * rnd attempt)])
      | Inl e \<Rightarrow> \<lparr>outcome = Inl e, calls = Suc attempt, sleeps = sl\<rparr>)"

definition retry_with_backoff ::
  "nat \<Rightarrow> rat \<Rightarrow> (nat \<Rightarrow> 'a result) \<Rightarrow> (nat \<Rightarrow> rat) \<Rightarrow> 'a retry_run" where
  "retry_with_backoff max_retries initial_backoff func rnd =
     retry_loop max_retries func rnd max_retries 0 initial_backoff None []"

section \<open>Token manager\<close>

text \<open>
  The cache \<^verbatim>\<open>self._token_cache\<close> holds a token and an expiry time; it starts as
  \<^verbatim>\<open>{"token": None, "expires_at": 0}\<close>. The environment of a call is the process
  environment \<open>getenv\<close>, the clock \<open>current_time\<close>, and \<open>exchange\<close>: what building the
  MSAL client and calling \<^verbatim>\<open>acquire_token_for_client\<close> gives, a result dictionary or an
  exception. Times are exact rationals.
\<close>

record token_cache =
  token :: json
  expires_at :: rat

definition empty_cache :: token_cache where
  "empty_cache = \<lparr>token = JNull, expires_at = 0\<rparr>"

definition required_vars :: "string list" where
  "required_vars = [''CLIENT_ID'', ''CLIENT_SECRET'', ''TENANT_ID'', ''EMAIL_ADDRESS'']"

text \<open>\<^verbatim>\<open>validate_config\<close>: a variable is missing when it is unset or empty.\<close>

definition validate_config :: "(string \<Rightarrow> string option) \<Rightarrow> unit result" where
  "validate_config getenv =
     (let missing = filter (\<lambda>var. case getenv var of None \<Rightarrow> True | Some v \<Rightarrow> v = [])
                      required_vars
      in if missing \<noteq> [] then Inl ValueError else Inr ())"

text \<open>\<^verbatim>\<open>d[k]\<close> and \<^verbatim>\<open>current_time + x\<close>.\<close>

fun py_getitem :: "json \<Rightarrow> string \<Rightarrow> json result" where
  "py_getitem (JObj d) k = (case map_of d k of Some v \<Rightarrow> Inr v | None \<Rightarrow> Inl KeyError)"
| "py_getitem _ k = Inl TypeError"

fun add_seconds :: "rat \<Rightarrow> json \<Rightarrow> rat result" where
  "add_seconds t (JNum n) = Inr (t + n)"
| "add_seconds t (JBool b) = Inr (t + (if b then 1 else 0))"
| "add_seconds t _ = Inl TypeError"

text \<open>The branch \<^verbatim>\<open>if "access_token" in result\<close>: the new cache, or the exception
  raised on the way (the \<^verbatim>\<open>else\<close> branch raises a plain \<^verbatim>\<open>Exception\<close>).\<close>

definition grant_step :: "rat \<Rightarrow> json \<Rightarrow> token_cache result" where
  "grant_step current_time result =
     bind (py_contains ''access_token'' result) (\<lambda>has.
       if has then
         bind (py_getitem result ''access_token'') (\<lambda>tok.
         bind (py_get result ''expires_in'' (JNum 3600)) (\<lambda>life.
         bind (add_seconds current_time life) (\<lambda>exp.
           Inr \<lparr>token = tok, expires_at = exp\<rparr>)))
       else Inl TokenError)"

text \<open>
  The result of a call: what it returns or raises, the cache afterwards, and whether the
  exchange with the identity provider was made. The outer \<^verbatim>\<open>except Exception\<close> only logs
  and re-raises.
\<close>

record token_call =
  returned :: "json result"
  cache_after :: token_cache
  exchanged :: bool

definition get_access_token ::
  "(string \<Rightarrow> string option) \<Rightarrow> json result \<Rightarrow> rat \<Rightarrow> bool \<Rightarrow> token_cache \<Rightarrow> token_call" where
  "get_access_token getenv exchange current_time force_refresh cache =
     (if \<not> force_refresh \<and> truthy (token cache) \<and> expires_at cache > current_time + 60
      then \<lparr>returned = Inr (token cache), cache_after = cache, exchanged = False\<rparr>
      else case validate_config getenv of
        Inl e \<Rightarrow> \<lparr>returned = Inl e, cache_after = cache, exchanged = False\<rparr>
      | Inr _ \<Rightarrow>
         (case exchange of
            Inl e \<Rightarrow> \<lparr>returned = Inl e, cache_after = cache, exchanged = True\<rparr>
          | Inr result \<Rightarrow>
             (case grant_step current_time result of
                Inl e \<Rightarrow> \<lparr>returned = Inl e, cache_after = cache, exchanged = True\<rparr>
              | Inr new_cache \<Rightarrow>
                  \<lparr>returned = Inr (token new_cache), cache_after = new_cache,
                   exchanged = True\<rparr>)))"

text \<open>The condition of the specification for serving the cached token, the environment in
  which the exchange can succeed, and what a successful exchange grants.\<close>

definition cache_fresh :: "rat \<Rightarrow> bool \<Rightarrow> token_cache \<Rightarrow> bool" where
  "cache_fresh current_time force_refresh cache =
     (\<not> force_refresh \<and> truthy (token cache) \<and> expires_at cache > current_time + 60)"

definition config_complete :: "(string \<Rightarrow> string option) \<Rightarrow> bool" where
  "config_complete getenv =
     list_all (\<lambda>var. case getenv var of None \<Rightarrow> False | Some v \<Rightarrow> v \<noteq> []) required_vars"

definition granted :: "json result \<Rightarrow> (json \<times> rat) option" where
  "granted exchange =
     (case exchange of
        Inr (JObj d) \<Rightarrow>
          (case map_of d ''access_token'' of
             None \<Rightarrow> None
           | Some tok \<Rightarrow>
              (case map_of d ''expires_in'' of
                 None \<Rightarrow> Some (tok, 3600)
               | Some (JNum n) \<Rightarrow> Some (tok, n)
               | Some (JBool b) \<Rightarrow> Some (tok, if b then 1 else 0)
               | Some _ \<Rightarrow> None))
      | _ \<Rightarrow> None)"

definition fresh_cache :: token_cache where
  "fresh_cache = \<lparr>token = JStr ''eyJcached'', expires_at = 5000\<rparr>"

definition full_env :: "string \<Rightarrow> string option" where
  "full_env = map_of [(''CLIENT_ID'', ''11111111-aaaa''), (''CLIENT_SECRET'', ''s3cr3t''),
                      (''TENANT_ID'', ''contoso''), (''EMAIL_ADDRESS'', ''ar@contoso.com'')]"

definition grant_response :: "json result" where
  "grant_response = Inr (JObj [(''token_type'', JStr ''Bearer''), (''expires_in'', JNum 3599),
                               (''access_token'', JStr ''eyJ0eXAi'')])"

definition reject_response :: "json result" where
  "reject_response = Inr (JObj [(''error'', JStr ''invalid_client''),
                                (''error_description'', JStr ''AADSTS7000215'')])"

section \<open>Paginated resource walker\<close>

text \<open>
  \<^verbatim>\<open>get_all_pages\<close> is a generator. Its model returns what a consumer that runs it to the
  end receives: the items in the order they were yielded, and the number of page requests
  made. The mail service is \<open>srv\<close>: \<open>srv n url\<close> is what request number \<open>n\<close>, a GET of
  \<open>url\<close> followed by \<^verbatim>\<open>raise_for_status()\<close> and \<^verbatim>\<open>json()\<close>, gives: the decoded page or
  the exception raised. The loop \<^verbatim>\<open>while full_url\<close> need not end (a page may link to
  itself), so the walk is a partial function and a walk that never ends is \<open>None\<close>.
\<close>

type_synonym service = "nat \<Rightarrow> string \<Rightarrow> json result"

text \<open>The first URL; \<open>params\<close> is \<^verbatim>\<open>urlencode(params)\<close> when \<^verbatim>\<open>params\<close> is given and not
  empty.\<close>

definition build_url :: "string \<Rightarrow> string option \<Rightarrow> string" where
  "build_url url params =
     (case params of
        Some query_params \<Rightarrow>
          if CHR ''?'' \<notin> set url then url @ ''?'' @ query_params
          else url @ ''&'' @ query_params
      | None \<Rightarrow> url)"

text \<open>The statements of the \<^verbatim>\<open>try\<close> block up to the \<^verbatim>\<open>for\<close> loop: the request, and the
  iterator over \<^verbatim>\<open>data.get("value", [])\<close>. A URL that is not a string cannot be
  requested.\<close>

definition fetch_page :: "service \<Rightarrow> nat \<Rightarrow> json \<Rightarrow> (json \<times> json list) result" where
  "fetch_page srv n full_url =
     bind (case full_url of JStr u \<Rightarrow> srv n u | _ \<Rightarrow> Inl TypeError) (\<lambda>data.
     bind (py_get data ''value'' (JArr [])) (\<lambda>v.
     bind (py_iter v) (\<lambda>items. Inr (data, items))))"

text \<open>The \<^verbatim>\<open>for item in ...\<close> loop: the items yielded, the count afterwards, and whether
  the loop left the generator by \<^verbatim>\<open>return\<close>.\<close>

fun yield_items :: "int \<Rightarrow> json list \<Rightarrow> nat \<Rightarrow> json list \<times> nat \<times> bool" where
  "yield_items max_items [] count = ([], count, False)"
| "yield_items max_items (item # items) count =
     (if max_items \<noteq> 0 \<and> int (Suc count) \<ge> max_items then ([item], Suc count, True)
      else case yield_items max_items items (Suc count) of
             (ys, count', stop) \<Rightarrow> (item # ys, count', stop))"

partial_function (option) walk_pages ::
  "service \<Rightarrow> int \<Rightarrow> nat \<Rightarrow> json \<Rightarrow> nat \<Rightarrow> json list \<Rightarrow> (json list \<times> nat) option" where
  "walk_pages srv max_items n full_url count acc =
     (if \<not> truthy full_url then Some (acc, n)
      else case fetch_page srv n full_url of
        Inl e \<Rightarrow> Some (acc, Suc n)
      | Inr (data, items) \<Rightarrow>
         (case yield_items max_items items count of
            (ys, count', stop) \<Rightarrow>
              if stop then Some (acc @ ys, Suc n)
              else (case py_get data ''@odata.nextLink'' JNull of
                      Inl e \<Rightarrow> Some (acc @ ys, Suc n)
                    | Inr next_link \<Rightarrow>
                        walk_pages srv max_items (Suc n) next_link count' (acc @ ys))))"

declare walk_pages.simps [code]

text \<open>\<^verbatim>\<open>max_items or self.batch_size\<close>: the batch size stands in for \<^verbatim>\<open>None\<close> and for 0.\<close>

definition item_bound :: "int option \<Rightarrow> int \<Rightarrow> int" where
  "item_bound max_items batch_size =
     (case max_items of
        None \<Rightarrow> batch_size
      | Some m \<Rightarrow> if m \<noteq> 0 then m else batch_size)"

text \<open>The generator. \<open>tok\<close> is what \<^verbatim>\<open>self.get_access_token()\<close> gives; its exception
  reaches the consumer.\<close>

definition get_all_pages ::
  "json result \<Rightarrow> service \<Rightarrow> int \<Rightarrow> string \<Rightarrow> string option \<Rightarrow> int option
   \<Rightarrow> (json list \<times> nat) result option" where
  "get_all_pages tok srv batch_size url params max_items =
     (let full_url = build_url url params in
      case tok of
        Inl e \<Rightarrow> Some (Inl e)
      | Inr access_token \<Rightarrow>
          map_option Inr
            (walk_pages srv (item_bound max_items batch_size) 0 (JStr full_url) 0 []))"

subsection \<open>A paginated source, as the specification describes it\<close>

text \<open>
  \<open>source srv n url pages fails\<close>: from request \<open>n\<close> at \<open>url\<close> the service holds the pages
  \<open>pages\<close>, each the list of the elements of its \<^verbatim>\<open>value\<close>, each but the last linking to
  the next. With \<open>fails = False\<close> the last page has no next link; with \<open>fails = True\<close> it
  links on, and fetching that link fails (an HTTP status error, a network error or a
  malformed page).
\<close>

fun source :: "service \<Rightarrow> nat \<Rightarrow> json \<Rightarrow> json list list \<Rightarrow> bool \<Rightarrow> bool" where
  "source srv n url [] fails =
     (if fails then truthy url \<and> isl (fetch_page srv n url) else \<not> truthy url)"
| "source srv n url (p # ps) fails =
     (truthy url \<and>
      (case fetch_page srv n url of
         Inl e \<Rightarrow> False
       | Inr (data, items) \<Rightarrow>
           items = p \<and>
           (case py_get data ''@odata.nextLink'' JNull of
              Inl e \<Rightarrow> False
            | Inr next_link \<Rightarrow> source srv (Suc n) next_link ps fails)))"

text \<open>The number of elements a walk may still yield after \<open>count\<close> of them: unbounded for
  the bound 0, and one more when the count has passed the bound already.\<close>

definition room :: "int \<Rightarrow> nat \<Rightarrow> nat option" where
  "room max_items count =
     (if max_items = 0 then None
      else Some (if int count < max_items then nat max_items - count else 1))"

definition capped :: "nat option \<Rightarrow> 'a list \<Rightarrow> 'a list" where
  "capped c xs = (case c of None \<Rightarrow> xs | Some k \<Rightarrow> take k xs)"

text \<open>The requests a walk needs: the pages up to the one that holds the last element it
  may yield, and the failing request if the walk gets that far.\<close>

fun requests_needed :: "nat option \<Rightarrow> bool \<Rightarrow> 'a list list \<Rightarrow> nat" where
  "requests_needed c fails [] = (if fails then 1 else 0)"
| "requests_needed None fails (p # ps) = Suc (requests_needed None fails ps)"
| "requests_needed (Some k) fails (p # ps) =
     (if k \<le> length p then 1 else Suc (requests_needed (Some (k - length p)) fails ps))"

text \<open>A source of three pages of two messages each, and the same source when its third
  page answers with status 503.\<close>

definition page_of :: "string list \<Rightarrow> string option \<Rightarrow> json" where
  "page_of ids next_link =
     JObj ((''value'', JArr (map (\<lambda>i. JObj [(''id'', JStr i)]) ids)) #
           (case next_link of None \<Rightarrow> [] | Some u \<Rightarrow> [(''@odata.nextLink'', JStr u)]))"

definition three_pages :: service where
  "three_pages n url =
     (if url = ''https://graph/messages?top=2''
      then Inr (page_of [''m1'', ''m2''] (Some ''https://graph/messages?skip=2''))
      else if url = ''https://graph/messages?skip=2''
      then Inr (page_of [''m3'', ''m4''] (Some ''https://graph/messages?skip=4''))
      else if url = ''https://graph/messages?skip=4''
      then Inr (page_of [''m5'', ''m6''] None)
      else Inl (HTTPStatusError 404))"

definition broken_third_page :: service where
  "broken_third_page n url =
     (if url = ''https://graph/messages?skip=4'' then Inl (HTTPStatusError 503)
      else three_pages n url)"

definition msgs :: "string list \<Rightarrow> json list" where
  "msgs ids = map (\<lambda>i. JObj [(''id'', JStr i)]) ids"

section \<open>Model API client\<close>

text \<open>
  The classifier and the reply generator are reached through the \<^verbatim>\<open>requests\<close> library. A
  call either raises or gives a response; of a response the module reads the status code
  and \<^verbatim>\<open>response.json()\<close>, which is the decoded body or an exception.
\<close>

record response =
  status_code :: nat
  json_body :: "json result"

definition ALLOWED_LABELS :: "string list" where
  "ALLOWED_LABELS =
     [''no_reply_no_info'', ''no_reply_with_info'', ''auto_reply_no_info'',
      ''auto_reply_with_info'', ''invoice_request_no_info'', ''claims_paid_no_proof'',
      ''claims_paid_with_proof'', ''manual_review'', ''uncategorised'']"

definition RESPONSE_LABELS :: "string list" where
  "RESPONSE_LABELS = [''invoice_request_no_info'', ''claims_paid_no_proof'']"

text \<open>\<^verbatim>\<open>requests.exceptions.RequestException\<close> and its subclass \<^verbatim>\<open>HTTPError\<close>.\<close>

fun is_request_exception :: "exn \<Rightarrow> bool" where
  "is_request_exception RequestsException = True"
| "is_request_exception (RequestsHTTPError s) = True"
| "is_request_exception _ = False"

text \<open>\<^verbatim>\<open>health_check\<close>: \<open>get\<close> is what \<^verbatim>\<open>requests.get(base_url, timeout=10)\<close> does.\<close>

definition health_check :: "response result \<Rightarrow> bool result" where
  "health_check get =
     (case get of
        Inr r \<Rightarrow> Inr (status_code r = 200)
      | Inl e \<Rightarrow> if is_request_exception e then Inr False else Inl e)"

text \<open>\<^verbatim>\<open>response.raise_for_status()\<close> of \<^verbatim>\<open>requests\<close>.\<close>

definition raise_for_status :: "response \<Rightarrow> unit result" where
  "raise_for_status r =
     (if 400 \<le> status_code r \<and> status_code r < 600
      then Inl (RequestsHTTPError (status_code r)) else Inr ())"

text \<open>A POST followed by \<^verbatim>\<open>raise_for_status()\<close> and \<^verbatim>\<open>json()\<close>.\<close>

definition post_json :: "response result \<Rightarrow> json result" where
  "post_json post = bind post (\<lambda>r. bind (raise_for_status r) (\<lambda>_. json_body r))"

definition api_fallback :: "string \<Rightarrow> json" where
  "api_fallback method =
     JObj [(''label'', JStr ''uncategorised''), (''confidence'', JNum 0), (''method'', JStr method)]"

text \<open>\<^verbatim>\<open>x or []\<close>\<close>

definition or_else :: "json \<Rightarrow> json \<Rightarrow> json" where
  "or_else x d = (if truthy x then x else d)"

text \<open>The request payloads.\<close>

definition classify_payload ::
  "json \<Rightarrow> json \<Rightarrow> json \<Rightarrow> json \<Rightarrow> json list \<Rightarrow> json \<Rightarrow> bool \<Rightarrow> json" where
  "classify_payload subject body headers sender_email recipient_emails has_attachments
     had_threads =
     JObj [(''subject'', subject), (''body'', body),
           (''headers'', or_else headers (JArr [])),
           (''sender_email'', sender_email),
           (''recipient_emails'', or_else (JArr recipient_emails) (JArr [])),
           (''has_attachments'', has_attachments),
           (''had_threads'', JBool had_threads)]"

definition reply_payload :: "json \<Rightarrow> json \<Rightarrow> string \<Rightarrow> json \<Rightarrow> json" where
  "reply_payload subject body label entities =
     JObj [(''subject'', subject), (''body'', body), (''label'', JStr label),
           (''entities'', or_else entities (JObj []))]"

text \<open>
  \<^verbatim>\<open>classify_email\<close>. \<open>get\<close> answers the health check and \<open>post\<close> answers the request to
  \<^verbatim>\<open>/api/classify\<close>, given the payload. The body of the \<^verbatim>\<open>try\<close> block comes first; the
  function returns the fallback for every exception.
\<close>

definition classify_body ::
  "response result \<Rightarrow> (json \<Rightarrow> response result) \<Rightarrow> json \<Rightarrow> json \<Rightarrow> json \<Rightarrow> json \<Rightarrow> json list
   \<Rightarrow> json \<Rightarrow> bool \<Rightarrow> json result" where
  "classify_body get post subject body headers sender_email recipient_emails has_attachments
     had_threads =
     bind (health_check get) (\<lambda>up.
       if \<not> up then Inr (api_fallback ''api_unavailable'')
       else
         let payload = classify_payload subject body headers sender_email recipient_emails
                         has_attachments had_threads
         in bind (post_json (post payload)) (\<lambda>result.
            bind (py_contains ''status'' result) (\<lambda>has_status.
            bind (if has_status
                  then bind (py_getitem result ''status'') (\<lambda>s. Inr (s = JStr ''success''))
                  else Inr False) (\<lambda>success.
            bind (if success then py_contains ''results'' result else Inr False) (\<lambda>ok.
              if ok
              then bind (py_getitem result ''results'') (\<lambda>results. py_index0 results)
              else Inr (api_fallback ''api_error''))))))"

definition classify_email ::
  "response result \<Rightarrow> (json \<Rightarrow> response result) \<Rightarrow> json \<Rightarrow> json \<Rightarrow> json \<Rightarrow> json \<Rightarrow> json list
   \<Rightarrow> json \<Rightarrow> bool \<Rightarrow> json" where
  "classify_email get post subject body headers sender_email recipient_emails has_attachments
     had_threads =
     (case classify_body get post subject body headers sender_email recipient_emails
             has_attachments had_threads of
        Inr classification \<Rightarrow> classification
      | Inl e \<Rightarrow> api_fallback ''api_error'')"

text \<open>
  \<^verbatim>\<open>generate_reply\<close>. The length of the reply is taken for the log line inside the \<^verbatim>\<open>try\<close>
  block, so a reply without a length is an exception too. Every exception gives the empty
  string; the function itself raises nothing.
\<close>

definition reply_body ::
  "response result \<Rightarrow> (json \<Rightarrow> response result) \<Rightarrow> json \<Rightarrow> json \<Rightarrow> string \<Rightarrow> json
   \<Rightarrow> json result" where
  "reply_body get post subject body label entities =
     (if label \<notin> set RESPONSE_LABELS then Inr (JStr [])
      else bind (health_check get) (\<lambda>up.
        if \<not> up then Inr (JStr [])
        else
          let payload = reply_payload subject body label entities
          in bind (post_json (post payload)) (\<lambda>result.
             bind (py_get result ''reply'' (JStr [])) (\<lambda>reply.
             bind (py_len reply) (\<lambda>_. Inr reply)))))"

definition generate_reply ::
  "response result \<Rightarrow> (json \<Rightarrow> response result) \<Rightarrow> json \<Rightarrow> json \<Rightarrow> string \<Rightarrow> json
   \<Rightarrow> json result" where
  "generate_reply get post subject body label entities =
     (case reply_body get post subject body label entities of
        Inr reply \<Rightarrow> Inr reply
      | Inl e \<Rightarrow> Inr (JStr []))"

section \<open>Mail operations behind the backoff executor\<close>

text \<open>
  \<^verbatim>\<open>move_email_to_folder\<close> and \<^verbatim>\<open>mark_email_read_status\<close> are decorated with
  \<^verbatim>\<open>@retry_with_backoff(max_retries=3, initial_backoff=1.5)\<close>. One invocation of the body
  asks for a token first, outside its \<^verbatim>\<open>try\<close> block, and then makes the request inside
  it. \<open>tok k\<close> is what \<^verbatim>\<open>get_access_token()\<close> gives at invocation \<open>k\<close>; \<open>post k\<close> is what
  the POST, \<^verbatim>\<open>raise_for_status()\<close> and \<^verbatim>\<open>json()\<close> give; \<open>patch k\<close> is what the PATCH and
  \<^verbatim>\<open>raise_for_status()\<close> give.
\<close>

definition move_attempt :: "json result \<Rightarrow> json result \<Rightarrow> (bool \<times> json) result" where
  "move_attempt tok post =
     bind tok (\<lambda>access_token.
       Inr (case post of
              Inl e \<Rightarrow> (False, JNull)
            | Inr result \<Rightarrow>
               (case py_get result ''id'' (JStr ''unknown'') of
                  Inl e \<Rightarrow> (False, JNull)
                | Inr new_id \<Rightarrow> (True, new_id))))"

definition move_email_to_folder ::
  "(nat \<Rightarrow> json result) \<Rightarrow> (json \<Rightarrow> json \<Rightarrow> nat \<Rightarrow> json result) \<Rightarrow> (nat \<Rightarrow> rat) \<Rightarrow> json \<Rightarrow> json
   \<Rightarrow> (bool \<times> json) retry_run" where
  "move_email_to_folder tok post rnd message_id folder_id =
     retry_with_backoff 3 (3 / 2) (\<lambda>k. move_attempt (tok k) (post message_id folder_id k)) rnd"

definition mark_attempt :: "json result \<Rightarrow> unit result \<Rightarrow> bool result" where
  "mark_attempt tok patch =
     bind tok (\<lambda>access_token. Inr (case patch of Inl e \<Rightarrow> False | Inr _ \<Rightarrow> True))"

definition mark_email_read_status ::
  "(nat \<Rightarrow> json result) \<Rightarrow> (json \<Rightarrow> bool \<Rightarrow> nat \<Rightarrow> unit result) \<Rightarrow> (nat \<Rightarrow> rat) \<Rightarrow> json \<Rightarrow> bool
   \<Rightarrow> bool retry_run" where
  "mark_email_read_status tok patch rnd message_id is_read =
     retry_with_backoff 3 (3 / 2) (\<lambda>k. mark_attempt (tok k) (patch message_id is_read k)) rnd"

section \<open>Classification and routing pipeline\<close>

subsection \<open>State, configuration and environment\<close>

text \<open>
  Modelled from the spec: the persistence collaborator (\<^verbatim>\<open>src.db\<close>, \<^verbatim>\<open>get_mongo()\<close>) is not
  part of the sources. The specification gives it an existence check by external id, an
  insert, and an id patch after a move; the store is the list of the documents inserted,
  each a dictionary with its external id under \<^verbatim>\<open>message_id\<close>.
\<close>

type_synonym store = "pydict list"

definition email_exists :: "store \<Rightarrow> json \<Rightarrow> bool" where
  "email_exists s message_id = list_ex (\<lambda>doc. map_of doc ''message_id'' = Some message_id) s"

definition insert_email :: "store \<Rightarrow> pydict \<Rightarrow> store" where
  "insert_email s email_data = s @ [email_data]"

definition update_message_id :: "store \<Rightarrow> json \<Rightarrow> json \<Rightarrow> store" where
  "update_message_id s old_id new_id =
     map (\<lambda>doc. if map_of doc ''message_id'' = Some old_id
                then (''message_id'', new_id) # doc else doc) s"

text \<open>The counters of \<^verbatim>\<open>self.metrics\<close>.\<close>

record metrics =
  emails_processed :: nat
  emails_classified :: nat
  emails_skipped :: nat
  emails_errored :: nat
  emails_moved :: nat
  clean_text_extracted :: nat

definition zero_metrics :: metrics where
  "zero_metrics = \<lparr>emails_processed = 0, emails_classified = 0, emails_skipped = 0,
                   emails_errored = 0, emails_moved = 0, clean_text_extracted = 0\<rparr>"

text \<open>The calls that \<^verbatim>\<open>_process_single_email\<close> makes to its collaborators, in order.\<close>

datatype event =
    ClassifyCall json
  | ReplyCall string
  | SetBatchId json
  | Insert pydict
  | MoveCall json json
  | UpdateId json json
  | MarkCall json bool

record pipeline =
  mongo :: store
  counters :: metrics
  calls_made :: "event list"

text \<open>The module constants read from the process environment, and the fields of the
  processor that a run does not change.\<close>

record config =
  MAIL_SEND_ENABLED :: bool
  FORCE_DRAFTS :: bool
  folder_mapping :: pydict
  batch_id :: json

text \<open>What the world answers while one message is processed.\<close>

record env =
  classify_get :: "response result"
  classify_post :: "json \<Rightarrow> response result"
  reply_get :: "response result"
  reply_post :: "json \<Rightarrow> response result"
  move_token :: "nat \<Rightarrow> json result"
  move_post :: "json \<Rightarrow> json \<Rightarrow> nat \<Rightarrow> json result"
  mark_token :: "nat \<Rightarrow> json result"
  mark_patch :: "json \<Rightarrow> bool \<Rightarrow> nat \<Rightarrow> unit result"
  jitter :: "nat \<Rightarrow> rat"
  utcnow :: string

definition log_call :: "event \<Rightarrow> pipeline \<Rightarrow> pipeline" where
  "log_call ev st = st\<lparr>calls_made := calls_made st @ [ev]\<rparr>"

definition count_skipped :: "pipeline \<Rightarrow> pipeline" where
  "count_skipped st =
     st\<lparr>counters := (counters st)\<lparr>emails_skipped := emails_skipped (counters st) + 1\<rparr>\<rparr>"

definition count_errored :: "pipeline \<Rightarrow> pipeline" where
  "count_errored st =
     st\<lparr>counters := (counters st)\<lparr>emails_errored := emails_errored (counters st) + 1\<rparr>\<rparr>"

definition count_processed :: "pipeline \<Rightarrow> pipeline" where
  "count_processed st =
     st\<lparr>counters := (counters st)\<lparr>emails_processed := emails_processed (counters st) + 1\<rparr>\<rparr>"

definition count_classified :: "pipeline \<Rightarrow> pipeline" where
  "count_classified st =
     st\<lparr>counters := (counters st)\<lparr>emails_classified := emails_classified (counters st) + 1\<rparr>\<rparr>"

definition count_moved :: "pipeline \<Rightarrow> pipeline" where
  "count_moved st =
     st\<lparr>counters := (counters st)\<lparr>emails_moved := emails_moved (counters st) + 1\<rparr>\<rparr>"

definition count_clean_text :: "pipeline \<Rightarrow> pipeline" where
  "count_clean_text st =
     st\<lparr>counters := (counters st)
          \<lparr>clean_text_extracted := clean_text_extracted (counters st) + 1\<rparr>\<rparr>"

subsection \<open>Step 1: metadata\<close>

record metadata =
  m_sender :: json
  m_subject :: json
  m_received :: json
  m_has_attachments :: json
  m_conversation_id :: json
  m_clean_body :: json
  m_data_source :: string
  m_had_threads :: bool
  m_headers :: json
  m_to_recipients :: json
  m_cc_recipients :: json
  m_recipient :: json
  m_recipient_emails :: "json list"

text \<open>\<^verbatim>\<open>[r.get("emailAddress", {}).get("address", "") for r in recipients]\<close>\<close>

fun addresses :: "json list \<Rightarrow> json list result" where
  "addresses [] = Inr []"
| "addresses (r # rs) =
     bind (py_get r ''emailAddress'' (JObj [])) (\<lambda>ea.
     bind (py_get ea ''address'' (JStr [])) (\<lambda>a.
     bind (addresses rs) (\<lambda>as. Inr (a # as))))"

text \<open>The statements of step 1 up to the log line, which takes \<^verbatim>\<open>len(clean_body)\<close>.\<close>

definition extract_metadata :: "pydict \<Rightarrow> metadata result" where
  "extract_metadata msg =
     bind (py_get (dict_get msg ''from'' (JObj [])) ''emailAddress'' (JObj [])) (\<lambda>sender_info.
     bind (py_get sender_info ''address'' (JStr [])) (\<lambda>sender.
     case extract_clean_email_content msg of (clean_body, data_source, had_threads) \<Rightarrow>
     let to_recipients = dict_get msg ''toRecipients'' (JArr []);
         cc_recipients = dict_get msg ''ccRecipients'' (JArr [])
     in
     bind (if truthy to_recipients
           then bind (py_index0 to_recipients) (\<lambda>first.
                bind (py_get first ''emailAddress'' (JObj [])) (\<lambda>recipient_info.
                bind (py_get recipient_info ''address'' (JStr [])) (\<lambda>recipient.
                bind (py_iter to_recipients) (\<lambda>rs.
                bind (addresses rs) (\<lambda>as. Inr (recipient, as))))))
           else Inr (JStr [], [])) (\<lambda>(recipient, to_emails).
     bind (if truthy cc_recipients
           then bind (py_iter cc_recipients) (\<lambda>rs.
                bind (addresses rs) (\<lambda>as. Inr (to_emails @ as)))
           else Inr to_emails) (\<lambda>recipient_emails.
     bind (py_len clean_body) (\<lambda>_.
       Inr \<lparr>m_sender = sender,
            m_subject = dict_get msg ''subject'' (JStr []),
            m_received = dict_get msg ''receivedDateTime'' (JStr []),
            m_has_attachments = dict_get msg ''hasAttachments'' (JBool False),
            m_conversation_id = dict_get msg ''conversationId'' (JStr []),
            m_clean_body = clean_body,
            m_data_source = data_source,
            m_had_threads = had_threads,
            m_headers = dict_get msg ''internetMessageHeaders'' (JArr []),
            m_to_recipients = to_recipients,
            m_cc_recipients = cc_recipients,
            m_recipient = recipient,
            m_recipient_emails = recipient_emails\<rparr>)))))"

subsection \<open>Steps 3 to 5: classification, reply, flags\<close>

text \<open>\<^verbatim>\<open>if label not in ALLOWED_LABELS: label = "uncategorised"\<close>; afterwards the label is
  one of the strings of the list.\<close>

definition coerce_label :: "json \<Rightarrow> string" where
  "coerce_label label =
     (case label of
        JStr l \<Rightarrow> if l \<in> set ALLOWED_LABELS then l else ''uncategorised''
      | _ \<Rightarrow> ''uncategorised'')"

text \<open>
  Step 3, from a classifier result: the result used from here on, the label, the
  confidence, and whether \<^verbatim>\<open>emails_classified\<close> was incremented. The \<^verbatim>\<open>except\<close> branch is
  taken when the result has no \<^verbatim>\<open>get\<close>. The log line that formats the confidence with
  \<^verbatim>\<open>%.2f\<close> is formatted by the logging handler, which reports a formatting error on
  \<^verbatim>\<open>stderr\<close> and does not raise.
\<close>

definition read_classification :: "json \<Rightarrow> json \<times> string \<times> json \<times> bool" where
  "read_classification classification_result =
     (case bind (py_get classification_result ''label'' (JStr ''uncategorised'')) (\<lambda>label.
           bind (py_get classification_result ''confidence'' (JNum 0)) (\<lambda>confidence.
             Inr (label, confidence))) of
        Inr (label, confidence) \<Rightarrow>
          (classification_result, coerce_label label, confidence, True)
      | Inl e \<Rightarrow> (api_fallback ''api_error'', ''uncategorised'', JNum 0, False))"

definition classifier_result :: "env \<Rightarrow> metadata \<Rightarrow> json" where
  "classifier_result e meta =
     classify_email (classify_get e) (classify_post e) (m_subject meta) (m_clean_body meta)
       (m_headers meta) (m_sender meta) (m_recipient_emails meta) (m_has_attachments meta)
       (m_had_threads meta)"

text \<open>Step 4: the label and the reply text afterwards.\<close>

definition reply_stage :: "env \<Rightarrow> metadata \<Rightarrow> string \<Rightarrow> json \<Rightarrow> string \<times> json" where
  "reply_stage e meta label entities =
     (if label \<in> set RESPONSE_LABELS
      then (case generate_reply (reply_get e) (reply_post e) (m_subject meta)
                   (m_clean_body meta) label entities of
              Inr reply_text \<Rightarrow> (label, reply_text)
            | Inl ex \<Rightarrow> (''uncategorised'', JStr []))
      else (label, JStr []))"

text \<open>Step 5.\<close>

definition needs_manual_review :: "string \<Rightarrow> bool" where
  "needs_manual_review label = (label \<in> set [''manual_review'', ''uncategorised''])"

definition save_as_draft :: "config \<Rightarrow> string \<Rightarrow> bool" where
  "save_as_draft cfg label =
     (if \<not> MAIL_SEND_ENABLED cfg \<or> FORCE_DRAFTS cfg then True else needs_manual_review label)"

subsection \<open>Step 6: the document\<close>

definition num :: "nat \<Rightarrow> json" where
  "num n = JNum (of_nat n)"

text \<open>The entries copied when the entities name an out-of-office or a departed person:
  the top-level entries and the entry of the \<^verbatim>\<open>metadata\<close> dictionary.\<close>

definition ooo_entries :: "json \<Rightarrow> (pydict \<times> pydict) result" where
  "ooo_entries entities =
     bind (py_contains ''ooo_person'' entities) (\<lambda>has.
       if has then
         bind (py_get entities ''ooo_person'' (JObj [])) (\<lambda>person.
         bind (py_get entities ''ooo_contact_person'' (JObj [])) (\<lambda>contact.
         bind (py_get entities ''ooo_dates'' (JObj [])) (\<lambda>dates.
           Inr ([(''ooo_person'', person), (''ooo_contact_person'', contact),
                 (''ooo_dates'', dates)],
                [(''out_of_office'',
                  JObj [(''ooo_person'', person), (''contact_person'', contact),
                        (''ooo_dates'', dates)])]))))
       else Inr ([], []))"

definition left_entries :: "json \<Rightarrow> (pydict \<times> pydict) result" where
  "left_entries entities =
     bind (py_contains ''left_person'' entities) (\<lambda>has.
       if has then
         bind (py_get entities ''left_person'' (JObj [])) (\<lambda>person.
         bind (py_get entities ''replacement_contact'' (JObj [])) (\<lambda>replacement.
           Inr ([(''left_person'', person), (''replacement_contact'', replacement)],
                [(''left_company'',
                  JObj [(''left_person'', person), (''replacement'', replacement)])])))
       else Inr ([], []))"

definition build_email_data ::
  "config \<Rightarrow> string \<Rightarrow> json \<Rightarrow> metadata \<Rightarrow> json \<Rightarrow> string \<Rightarrow> json \<Rightarrow> json \<Rightarrow> json
   \<Rightarrow> pydict result" where
  "build_email_data cfg now message_id meta classification_result label confidence reply_text
     entities =
     bind (py_get classification_result ''method'' (JStr [])) (\<lambda>method.
     bind (py_get classification_result ''matching_patterns'' (JArr [])) (\<lambda>patterns.
     bind (py_len (m_headers meta)) (\<lambda>headers_count.
     bind (py_len (m_clean_body meta)) (\<lambda>body_length.
     bind (ooo_entries entities) (\<lambda>(ooo_top, ooo_meta).
     bind (left_entries entities) (\<lambda>(left_top, left_meta).
       Inr ([(''message_id'', message_id),
             (''sender'', m_sender meta),
             (''recipient'', m_recipient meta),
             (''to'', m_recipient meta),
             (''subject'', m_subject meta),
             (''body'', m_clean_body meta),
             (''text'', m_clean_body meta),
             (''received_at'', m_received meta),
             (''classification'', JStr label),
             (''prediction'', JStr label),
             (''confidence'', confidence),
             (''method'', method),
             (''response'', reply_text),
             (''response_sent'', if truthy reply_text then JBool False else JNull),
             (''processed_at'', JStr now),
             (''batch_id'', batch_id cfg),
             (''response_process'', JBool False),
             (''save_as_draft'', JBool (save_as_draft cfg label)),
             (''draft_saved'', JBool False),
             (''target_folder'', JStr label),
             (''entities'', entities),
             (''conversation_id'', m_conversation_id meta),
             (''has_attachments'', m_has_attachments meta),
             (''data_source'', JStr (m_data_source meta)),
             (''had_threads'', JBool (m_had_threads meta)),
             (''headers'',
              JObj [(''internet_headers'', m_headers meta),
                    (''to_recipients'', m_to_recipients meta),
                    (''cc_recipients'', m_cc_recipients meta),
                    (''all_recipients'', JArr (m_recipient_emails meta))]),
             (''metadata'',
              JObj ([(''entities'', entities),
                     (''confidence_score'', confidence),
                     (''classification_method'', method),
                     (''matching_patterns'', patterns),
                     (''conversation_id'', m_conversation_id meta),
                     (''has_attachments'', m_has_attachments meta),
                     (''headers_count'', num headers_count),
                     (''recipients_count'', num (length (m_recipient_emails meta))),
                     (''body_length'', num body_length),
                     (''clean_text_source'', JStr (m_data_source meta)),
                     (''had_threads'', JBool (m_had_threads meta))]
                    @ ooo_meta @ left_meta))]
            @ ooo_top @ left_top)))))))"

subsection \<open>Steps 7 to 9: insert, move, mark\<close>

text \<open>
  The statements inside the \<^verbatim>\<open>try\<close> block of \<^verbatim>\<open>_process_single_email\<close> give the state
  they leave and either \<open>Inr ()\<close>, when the block ran to its end or returned, or the
  exception that left it.

  Step 9 and the last statement of the block.
\<close>

definition mark_and_count ::
  "env \<Rightarrow> json \<Rightarrow> string \<Rightarrow> pipeline \<Rightarrow> pipeline \<times> unit result" where
  "mark_and_count e message_id label st =
     (let is_read = \<not> needs_manual_review label;
          st' = log_call (MarkCall message_id is_read) st
      in case outcome (mark_email_read_status (mark_token e) (mark_patch e) (jitter e)
                         message_id is_read) of
           Inl ex \<Rightarrow> (st', Inl ex)
         | Inr marked \<Rightarrow> (count_processed st', Inr ()))"

definition persist_and_route ::
  "config \<Rightarrow> env \<Rightarrow> json \<Rightarrow> string \<Rightarrow> pydict \<Rightarrow> pipeline \<Rightarrow> pipeline \<times> unit result" where
  "persist_and_route cfg e message_id label email_data st =
     (let st1 = log_call (Insert email_data) (st\<lparr>mongo := insert_email (mongo st) email_data\<rparr>);
          folder_id = dict_get (folder_mapping cfg) label JNull
      in if truthy folder_id
         then
           (let st2 = log_call (MoveCall message_id folder_id) st1 in
            case outcome (move_email_to_folder (move_token e) (move_post e) (jitter e)
                            message_id folder_id) of
              Inl ex \<Rightarrow> (st2, Inl ex)
            | Inr (move_success, new_id) \<Rightarrow>
                if move_success \<and> truthy new_id
                then mark_and_count e new_id label
                       (count_moved
                          (log_call (UpdateId message_id new_id)
                             (st2\<lparr>mongo := update_message_id (mongo st2) message_id new_id\<rparr>)))
                else mark_and_count e message_id label st2)
         else mark_and_count e message_id label st1)"

subsection \<open>\<^verbatim>\<open>_process_single_email\<close>\<close>

text \<open>The block from the classifier result on (the rest of step 3 and steps 4 to 9).\<close>

definition process_classified ::
  "config \<Rightarrow> env \<Rightarrow> json \<Rightarrow> metadata \<Rightarrow> json \<Rightarrow> pipeline \<Rightarrow> pipeline \<times> unit result" where
  "process_classified cfg e message_id meta result st =
     (case read_classification result of
        (classification_result, label, confidence, counted) \<Rightarrow>
          let st1 = log_call (ClassifyCall (m_clean_body meta)) st;
              st2 = (if counted then count_classified st1 else st1)
          in case py_get classification_result ''entities'' (JObj []) of
               Inl ex \<Rightarrow> (st2, Inl ex)
             | Inr entities \<Rightarrow>
                (case reply_stage e meta label entities of
                   (label', reply_text) \<Rightarrow>
                     let st3 = log_call (SetBatchId (batch_id cfg))
                                 (if label \<in> set RESPONSE_LABELS
                                  then log_call (ReplyCall label) st2 else st2)
                     in case build_email_data cfg (utcnow e) message_id meta
                               classification_result label' confidence reply_text entities of
                          Inl ex \<Rightarrow> (st3, Inl ex)
                        | Inr email_data \<Rightarrow>
                            persist_and_route cfg e message_id label' email_data st3))"

text \<open>The whole \<^verbatim>\<open>try\<close> block: steps 1 and 2, then the rest.\<close>

definition process_body ::
  "config \<Rightarrow> env \<Rightarrow> pydict \<Rightarrow> pipeline \<Rightarrow> pipeline \<times> unit result" where
  "process_body cfg e msg st =
     (let message_id = dict_get msg ''id'' (JStr ''unknown_id'') in
      case extract_metadata msg of
        Inl ex \<Rightarrow> (st, Inl ex)
      | Inr meta \<Rightarrow>
          let st1 = (if take 10 (m_data_source meta) = ''uniqueBody''
                     then count_clean_text st else st)
          in if email_exists (mongo st1) message_id then (count_skipped st1, Inr ())
             else process_classified cfg e message_id meta (classifier_result e meta) st1)"

text \<open>The function: the block, and the handler \<^verbatim>\<open>except Exception\<close> that counts the
  message as errored.\<close>

definition process_single_email :: "config \<Rightarrow> env \<Rightarrow> pydict \<Rightarrow> pipeline \<Rightarrow> pipeline" where
  "process_single_email cfg e msg st =
     (case process_body cfg e msg st of
        (st', Inl ex) \<Rightarrow> count_errored st'
      | (st', Inr _) \<Rightarrow> st')"



text \<open>The three outcome counters of a state, and their sum.\<close>

definition tally :: "pipeline \<Rightarrow> nat \<times> nat \<times> nat" where
  "tally st = (emails_skipped (counters st), emails_processed (counters st),
               emails_errored (counters st))"


text \<open>The calls made between two states of a run.\<close>

definition new_calls :: "pipeline \<Rightarrow> pipeline \<Rightarrow> event list" where
  "new_calls st st' = drop (length (calls_made st)) (calls_made st')"

text \<open>What the calls after the insert of a message look like: the move goes to the
  folder of the label, the id patch starts from the id of the message, and the message
  is marked read unless it needs manual review.\<close>

definition route_event :: "config \<Rightarrow> json \<Rightarrow> string \<Rightarrow> event \<Rightarrow> bool" where
  "route_event cfg mid label ev =
     (case ev of
        MoveCall m f \<Rightarrow> m = mid \<and> f = dict_get (folder_mapping cfg) label JNull
      | UpdateId a b \<Rightarrow> a = mid
      | MarkCall m r \<Rightarrow> r = (\<not> needs_manual_review label)
      | _ \<Rightarrow> False)"


text \<open>The state in which the document of a message is built, when the classifier result
  was a dictionary: the classifier was called and counted, the reply generator was
  called for a label that takes a response, and the batch id was set.\<close>

definition pre_state :: "config \<Rightarrow> metadata \<Rightarrow> string \<Rightarrow> pipeline \<Rightarrow> pipeline" where
  "pre_state cfg meta label st =
     log_call (SetBatchId (batch_id cfg))
       (if label \<in> set RESPONSE_LABELS
        then log_call (ReplyCall label)
               (count_classified (log_call (ClassifyCall (m_clean_body meta)) st))
        else count_classified (log_call (ClassifyCall (m_clean_body meta)) st))"

text \<open>The calls of the block from a dictionary result on.\<close>

definition classified_event ::
  "config \<Rightarrow> env \<Rightarrow> json \<Rightarrow> metadata \<Rightarrow> pydict \<Rightarrow> event \<Rightarrow> bool" where
  "classified_event cfg e mid meta r ev =
     (let label = coerce_label (dict_get r ''label'' (JStr ''uncategorised''));
          ents = dict_get r ''entities'' (JObj [])
      in case ev of
           ClassifyCall b \<Rightarrow> b = m_clean_body meta
         | ReplyCall l \<Rightarrow> l = label \<and> label \<in> set RESPONSE_LABELS
         | SetBatchId b \<Rightarrow> b = batch_id cfg
         | Insert d \<Rightarrow>
             build_email_data cfg (utcnow e) mid meta (JObj r) label
               (dict_get r ''confidence'' (JNum 0)) (snd (reply_stage e meta label ents)) ents
             = Inr d
         | ev' \<Rightarrow> route_event cfg mid label ev')"

subsection \<open>A message, a configuration and a world to run the pipeline in\<close>

definition invoice_msg :: pydict where
  "invoice_msg =
     [(''id'', JStr ''AAMk3''),
      (''subject'', JStr ''Invoice 42''),
      (''from'', JObj [(''emailAddress'', JObj [(''address'', JStr ''ap@vendor.com'')])]),
      (''toRecipients'',
       JArr [JObj [(''emailAddress'', JObj [(''address'', JStr ''ar@contoso.com'')])]]),
      (''body'', JObj [(''contentType'', JStr ''html''),
                       (''content'', JStr ''<p>Please send invoice 42</p>'')]),
      (''bodyPreview'', JStr ''Please send invoice 42''),
      (''receivedDateTime'', JStr ''2025-03-01T09:00:00Z''),
      (''hasAttachments'', JBool False),
      (''conversationId'', JStr ''conv-1''),
      (''internetMessageHeaders'', JArr [])]"


definition drafts_config :: config where
  "drafts_config =
     \<lparr>MAIL_SEND_ENABLED = False, FORCE_DRAFTS = True,
      folder_mapping = [(''invoice_request_no_info'', JStr ''folder-invoice''),
                        (''manual_review'', JStr ''folder-review''),
                        (''uncategorised'', JStr ''folder-uncategorised'')],
      batch_id = JNum 7\<rparr>"

definition ok_response :: "json \<Rightarrow> response result" where
  "ok_response body = Inr \<lparr>status_code = 200, json_body = Inr body\<rparr>"

definition classified_as :: "json \<Rightarrow> json \<Rightarrow> json" where
  "classified_as label confidence =
     JObj [(''label'', label), (''confidence'', confidence), (''method'', JStr ''ml'')]"

text \<open>A world in which every service answers: the classifier with the given result, the
  reply generator with a reply, the mail service with the new id of the moved message.\<close>

definition world :: "json \<Rightarrow> env" where
  "world classification =
     \<lparr>classify_get = ok_response (JObj []),
      classify_post = (\<lambda>payload. ok_response
         (JObj [(''status'', JStr ''success''), (''results'', JArr [classification])])),
      reply_get = ok_response (JObj []),
      reply_post = (\<lambda>payload. ok_response (JObj [(''reply'', JStr ''Dear sender'')])),
      move_token = (\<lambda>k. Inr (JStr ''eyJ0eXAi'')),
      move_post = (\<lambda>message_id folder_id k. Inr (JObj [(''id'', JStr ''AAMk3-moved'')])),
      mark_token = (\<lambda>k. Inr (JStr ''eyJ0eXAi'')),
      mark_patch = (\<lambda>message_id is_read k. Inr ()),
      jitter = (\<lambda>k. 1 / 2),
      utcnow = ''2025-03-01T09:05:00''\<rparr>"

definition fresh_pipeline :: pipeline where
  "fresh_pipeline = \<lparr>mongo = [], counters = zero_metrics, calls_made = []\<rparr>"




text \<open>A classifier result with a label outside the allowed set and a confidence that is
  not a number.\<close>

definition weird_result :: pydict where
  "weird_result = [(''label'', JStr ''weird''), (''confidence'', JStr ''high''),
                   (''method'', JStr ''ml'')]"

text \<open>The world when the reply service is down: its health check cannot connect.\<close>

definition reply_down_world :: env where
  "reply_down_world =
     (world (classified_as (JStr ''invoice_request_no_info'') (JNum (9 / 10))))
       \<lparr>reply_get := Inl RequestsException\<rparr>"

text \<open>The metadata that step 1 reads from \<open>invoice_msg\<close>.\<close>

definition invoice_meta :: metadata where
  "invoice_meta =
     \<lparr>m_sender = JStr ''ap@vendor.com'',
      m_subject = JStr ''Invoice 42'',
      m_received = JStr ''2025-03-01T09:00:00Z'',
      m_has_attachments = JBool False,
      m_conversation_id = JStr ''conv-1'',
      m_clean_body = JStr ''Please send invoice 42'',
      m_data_source = ''body_html_converted'',
      m_had_threads = False,
      m_headers = JArr [],
      m_to_recipients =
        JArr [JObj [(''emailAddress'', JObj [(''address'', JStr ''ar@contoso.com'')])]],
      m_cc_recipients = JArr [],
      m_recipient = JStr ''ar@contoso.com'',
      m_recipient_emails = [JStr ''ar@contoso.com'']\<rparr>"

section \<open>Properties of the backoff executor\<close>

text \<open>What the wrapper does with exceptions it catches: when every attempt raises a
  \<^verbatim>\<open>RequestError\<close> without a client status, it makes all the attempts, sleeps a doubled
  backoff with jitter between them, and raises the last error.\<close>

lemma retry_loop_transient:
  assumes "\<forall>k. attempt \<le> k \<and> k < attempt + m \<longrightarrow>
             (\<exists>s. func k = Inl (RequestError s) \<and> \<not> client_error s)"
      and "attempt + m = max_retries" and "0 < m"
  shows "retry_loop max_retries func rnd m attempt backoff last_exception sl =
           \<lparr>outcome = func (max_retries - 1), calls = max_retries,
            sleeps = sl @ map (\<lambda>k. backoff * 2 ^ (k - attempt) * (1 + (1 / 10) * rnd k))
                           [attempt..<max_retries - 1]\<rparr>"
  using assms
proof (induction m arbitrary: attempt backoff last_exception sl)
  case 0
  then show ?case by simp
next
  case (Suc m)
  from Suc.prems(1) obtain s where f: "func attempt = Inl (RequestError s)"
    and nc: "\<not> client_error s" by (metis le_refl less_add_Suc1 add_Suc_right)
  show ?case
  proof (cases m)
    case 0
    with Suc.prems have "attempt = max_retries - 1" by simp
    with f nc 0 Suc.prems show ?thesis by simp
  next
    case (Suc m')
    with Suc.prems have ne: "attempt \<noteq> max_retries - 1" and lt: "attempt < max_retries - 1"
      by auto
    have ih: "retry_loop max_retries func rnd m (Suc attempt) (backoff * 2)
                (Some (RequestError s)) (sl @ [backoff * (1 + (1 / 10) * rnd attempt)]) =
           \<lparr>outcome = func (max_retries - 1), calls = max_retries,
            sleeps = (sl @ [backoff * (1 + (1 / 10) * rnd attempt)]) @
                     map (\<lambda>k. backoff * 2 * 2 ^ (k - Suc attempt) * (1 + (1 / 10) * rnd k))
                           [Suc attempt..<max_retries - 1]\<rparr>"
      using Suc.prems Suc by (intro Suc.IH) auto
    have m: "map (\<lambda>k. backoff * 2 ^ (k - attempt) * (1 + (1 / 10) * rnd k))
                  [attempt..<max_retries - 1] =
             backoff * (1 + (1 / 10) * rnd attempt) #
             map (\<lambda>k. backoff * 2 * 2 ^ (k - Suc attempt) * (1 + (1 / 10) * rnd k))
                  [Suc attempt..<max_retries - 1]"
    proof -
      have "[attempt..<max_retries - 1] = attempt # [Suc attempt..<max_retries - 1]"
        using lt by (simp add: upt_conv_Cons)
      moreover have "\<And>k. Suc attempt \<le> k \<Longrightarrow> (2::rat) ^ (k - attempt) = 2 * 2 ^ (k - Suc attempt)"
        by (metis Suc_diff_le diff_Suc_Suc power_Suc)
      ultimately show ?thesis by (auto simp: mult.assoc)
    qed
    from f nc ne ih m show ?thesis by simp
  qed
qed

lemma retry_with_backoff_exhausted:
  assumes "\<forall>k < max_retries. \<exists>s. func k = Inl (RequestError s) \<and> \<not> client_error s"
      and "0 < max_retries"
  shows "retry_with_backoff max_retries initial_backoff func rnd =
           \<lparr>outcome = func (max_retries - 1), calls = max_retries,
            sleeps = map (\<lambda>k. initial_backoff * 2 ^ k * (1 + (1 / 10) * rnd k))
                       [0..<max_retries - 1]\<rparr>"
  using retry_loop_transient[of 0 max_retries func max_retries rnd initial_backoff None "[]"]
    assms
  by (simp add: retry_with_backoff_def)

text \<open>
  Claim C2 at the operations the executor wraps. The bodies of \<^verbatim>\<open>mark_email_read_status\<close>
  and \<^verbatim>\<open>move_email_to_folder\<close> catch every exception of their request and return a
  failure value, so a timeout or a 503 never reaches the wrapper: one invocation, no
  sleep, no exception for the caller. An \<^verbatim>\<open>HTTPStatusError\<close> that does reach the wrapper,
  as \<^verbatim>\<open>raise_for_status()\<close> raises for a 503 or a 429, is not a \<^verbatim>\<open>RequestError\<close> and
  leaves it after the first attempt.
\<close>

theorem wrapped_operations_do_not_retry:
  "mark_email_read_status (\<lambda>k. Inr (JStr ''eyJ0eXAi'')) (\<lambda>m r k. Inl (RequestError None))
     (\<lambda>k. 1 / 2) (JStr ''AAMk3'') True
     = \<lparr>outcome = Inr False, calls = 1, sleeps = []\<rparr>
   \<and> move_email_to_folder (\<lambda>k. Inr (JStr ''eyJ0eXAi'')) (\<lambda>m f k. Inl (HTTPStatusError 503))
     (\<lambda>k. 1 / 2) (JStr ''AAMk3'') (JStr ''folder-invoice'')
     = \<lparr>outcome = Inr (False, JNull), calls = 1, sleeps = []\<rparr>
   \<and> retry_with_backoff 3 (3 / 2) (\<lambda>k. Inl (HTTPStatusError 503) :: json result) (\<lambda>k. 1 / 2)
     = \<lparr>outcome = Inl (HTTPStatusError 503), calls = 1, sleeps = []\<rparr>"
  by (simp add: mark_email_read_status_def move_email_to_folder_def retry_with_backoff_def
        mark_attempt_def move_attempt_def bind_def numeral_3_eq_3)

section \<open>Properties of the content normaliser\<close>

lemma bind_Inr_iff: "bind m f = Inr r \<longleftrightarrow> (\<exists>v. m = Inr v \<and> f v = Inr r)"
  by (cases m) (simp_all add: bind_def)

lemma bind_Inl_iff: "bind m f = Inl e \<longleftrightarrow> m = Inl e \<or> (\<exists>v. m = Inr v \<and> f v = Inl e)"
  by (cases m) (simp_all add: bind_def)















section \<open>Properties of the token manager\<close>

lemma validate_config_ok: "config_complete getenv \<Longrightarrow> validate_config getenv = Inr ()"
  by (auto simp: validate_config_def config_complete_def required_vars_def Let_def
           split: option.splits)

lemma validate_config_fail:
  "\<not> config_complete getenv \<Longrightarrow> validate_config getenv = Inl ValueError"
  by (auto simp: validate_config_def config_complete_def required_vars_def Let_def
           split: option.splits)

lemma map_of_in_fst: "map_of d k = Some v \<Longrightarrow> k \<in> fst ` set d"
  by (metis domI dom_map_of_conv_image_fst)

lemma grant_step_granted:
  "granted (Inr result) = Some (tok, life) \<Longrightarrow>
   grant_step now result = Inr \<lparr>token = tok, expires_at = now + life\<rparr>"
  by (auto simp: granted_def grant_step_def bind_def dict_get_def dest: map_of_in_fst
           split: json.splits option.splits if_splits)

lemma grant_step_refused:
  "granted (Inr result) = None \<Longrightarrow> \<exists>e. grant_step now result = Inl e"
  by (cases result)
     (auto simp: granted_def grant_step_def bind_def dict_get_def
           split: json.splits option.splits if_splits sum.splits)

lemma granted_Inl: "granted (Inl e) = None"
  by (simp add: granted_def)

text \<open>
  Claim C8, as the code has it. \<^verbatim>\<open>get_access_token\<close> returns the cached token, without an
  exchange and without touching the cache, when a cached token is present, its expiry
  exceeds the current time plus 60 seconds and refresh is not forced. In every other case
  it validates the configuration and attempts the exchange: when the configuration is
  complete and the provider grants a token, the cache is replaced by the new token with
  its reported lifetime (3600 seconds when none is reported) and the new token is
  returned; when the configuration is incomplete or the exchange fails or is refused, the
  call raises and the cache is left as it was.
\<close>

theorem get_access_token_cases:
  "(cache_fresh now force cache \<longrightarrow>
      get_access_token getenv exchange now force cache =
        \<lparr>returned = Inr (token cache), cache_after = cache, exchanged = False\<rparr>)
   \<and> (\<not> cache_fresh now force cache \<and> config_complete getenv
        \<and> granted exchange = Some (tok, life) \<longrightarrow>
      get_access_token getenv exchange now force cache =
        \<lparr>returned = Inr tok, cache_after = \<lparr>token = tok, expires_at = now + life\<rparr>,
         exchanged = True\<rparr>)
   \<and> (\<not> cache_fresh now force cache
        \<and> (\<not> config_complete getenv \<or> granted exchange = None) \<longrightarrow>
      isl (returned (get_access_token getenv exchange now force cache))
      \<and> cache_after (get_access_token getenv exchange now force cache) = cache
      \<and> exchanged (get_access_token getenv exchange now force cache) = config_complete getenv)"
proof -
  have fresh: "get_access_token getenv exchange now force cache =
        \<lparr>returned = Inr (token cache), cache_after = cache, exchanged = False\<rparr>"
    if "cache_fresh now force cache"
    using that by (simp add: get_access_token_def cache_fresh_def)
  have renew: "get_access_token getenv exchange now force cache =
        \<lparr>returned = Inr tok, cache_after = \<lparr>token = tok, expires_at = now + life\<rparr>,
         exchanged = True\<rparr>"
    if a: "\<not> cache_fresh now force cache \<and> config_complete getenv
        \<and> granted exchange = Some (tok, life)"
  proof -
    from a obtain result where ex: "exchange = Inr result"
      by (cases exchange) (auto simp: granted_Inl)
    from a ex have g: "grant_step now result = Inr \<lparr>token = tok, expires_at = now + life\<rparr>"
      by (simp add: grant_step_granted)
    from a have nf: "\<not> (\<not> force \<and> truthy (token cache) \<and> expires_at cache > now + 60)"
      by (simp add: cache_fresh_def)
    from a have v: "validate_config getenv = Inr ()" by (simp add: validate_config_ok)
    show ?thesis
      unfolding get_access_token_def using nf v ex g by simp
  qed
  have fail: "isl (returned (get_access_token getenv exchange now force cache))
      \<and> cache_after (get_access_token getenv exchange now force cache) = cache
      \<and> exchanged (get_access_token getenv exchange now force cache) = config_complete getenv"
    if a: "\<not> cache_fresh now force cache
        \<and> (\<not> config_complete getenv \<or> granted exchange = None)"
  proof -
    from a have nf: "\<not> (\<not> force \<and> truthy (token cache) \<and> expires_at cache > now + 60)"
      by (simp add: cache_fresh_def)
    show ?thesis
    proof (cases "config_complete getenv")
      case False
      then have "validate_config getenv = Inl ValueError" by (rule validate_config_fail)
      with nf False show ?thesis unfolding get_access_token_def by simp
    next
      case True
      then have v: "validate_config getenv = Inr ()" by (rule validate_config_ok)
      from a True have n: "granted exchange = None" by simp
      show ?thesis
      proof (cases exchange)
        case (Inl e)
        with nf v True show ?thesis unfolding get_access_token_def by simp
      next
        case (Inr result)
        with n obtain e where "grant_step now result = Inl e"
          using grant_step_refused by blast
        with nf v True Inr show ?thesis unfolding get_access_token_def by simp
      qed
    qed
  qed
  from fresh renew fail show ?thesis by blast
qed

lemmas token_spec_defs =
  cache_fresh_def config_complete_def granted_def required_vars_def full_env_def
  grant_response_def reject_response_def empty_cache_def fresh_cache_def

theorem get_access_token_cases_witness:
  "get_access_token full_env grant_response 1000 False fresh_cache =
     \<lparr>returned = Inr (JStr ''eyJcached''), cache_after = fresh_cache, exchanged = False\<rparr>
   \<and> get_access_token full_env grant_response 1000 False empty_cache =
     \<lparr>returned = Inr (JStr ''eyJ0eXAi''),
      cache_after = \<lparr>token = JStr ''eyJ0eXAi'', expires_at = 4599\<rparr>, exchanged = True\<rparr>
   \<and> isl (returned (get_access_token full_env reject_response 1000 True fresh_cache))
   \<and> cache_after (get_access_token full_env reject_response 1000 True fresh_cache) = fresh_cache"
proof -
  have f: "cache_fresh 1000 False fresh_cache"
    by (simp add: token_spec_defs)
  have e: "\<not> cache_fresh 1000 False empty_cache \<and> config_complete full_env
        \<and> granted grant_response = Some (JStr ''eyJ0eXAi'', 3599)"
    by (simp add: token_spec_defs)
  have r: "\<not> cache_fresh 1000 True fresh_cache
        \<and> (\<not> config_complete full_env \<or> granted reject_response = None)"
    by (simp add: token_spec_defs)
  from f get_access_token_cases [of 1000 False fresh_cache full_env grant_response]
  have 1: "get_access_token full_env grant_response 1000 False fresh_cache =
     \<lparr>returned = Inr (JStr ''eyJcached''), cache_after = fresh_cache, exchanged = False\<rparr>"
    by (simp add: fresh_cache_def)
  from e get_access_token_cases [of 1000 False empty_cache full_env grant_response
      "JStr ''eyJ0eXAi''" 3599]
  have 2: "get_access_token full_env grant_response 1000 False empty_cache =
     \<lparr>returned = Inr (JStr ''eyJ0eXAi''),
      cache_after = \<lparr>token = JStr ''eyJ0eXAi'', expires_at = 4599\<rparr>, exchanged = True\<rparr>"
    by simp
  from r get_access_token_cases [of 1000 True fresh_cache full_env reject_response]
  have 3: "isl (returned (get_access_token full_env reject_response 1000 True fresh_cache))
   \<and> cache_after (get_access_token full_env reject_response 1000 True fresh_cache) = fresh_cache"
    by simp
  from 1 2 3 show ?thesis by simp
qed

text \<open>The claim as worded promises the new token in every case where the cached one is not
  served. With an empty cache and a provider that refuses the client, the call raises and
  the cache stays empty.\<close>

theorem get_access_token_counterexample:
  "\<not> cache_fresh 1000 False empty_cache
   \<and> get_access_token full_env reject_response 1000 False empty_cache =
       \<lparr>returned = Inl TokenError, cache_after = empty_cache, exchanged = True\<rparr>"
  by (simp add: get_access_token_def grant_step_def validate_config_def bind_def Let_def
        token_spec_defs)

section \<open>Properties of the paginated resource walker\<close>

lemma room_step:
  "room m count = Some k \<Longrightarrow> \<not> (m \<noteq> 0 \<and> int (Suc count) \<ge> m) \<Longrightarrow>
   room m (Suc count) = Some (k - 1) \<and> 1 < k"
  by (auto simp: room_def split: if_splits)

lemma room_stop:
  "room m count = Some k \<Longrightarrow> m \<noteq> 0 \<and> int (Suc count) \<ge> m \<Longrightarrow> k = 1"
  by (auto simp: room_def split: if_splits)

lemma room_None: "room m count = None \<longleftrightarrow> m = 0"
  by (simp add: room_def)

lemma yield_items_room:
  "yield_items m items count =
     (case room m count of
        None \<Rightarrow> (items, count + length items, False)
      | Some k \<Rightarrow> (take k items, count + min k (length items), k \<le> length items))"
proof (induction items arbitrary: count)
  case Nil
  then show ?case by (auto simp: room_def split: option.splits)
next
  case (Cons item items)
  show ?case
  proof (cases "room m count")
    case None
    then have m: "m = 0" by (simp add: room_None)
    then have "room m (Suc count) = None" by (simp add: room_None)
    with Cons[of "Suc count"] None m show ?thesis by simp
  next
    case (Some k)
    show ?thesis
    proof (cases "m \<noteq> 0 \<and> int (Suc count) \<ge> m")
      case True
      with room_stop[OF Some] have "k = 1" by simp
      with True Some show ?thesis by simp
    next
      case False
      from room_step[OF Some False]
      have r: "room m (Suc count) = Some (k - 1)" and k: "1 < k" by auto
      obtain j where j: "k = Suc j" using k by (cases k) auto
      from False Some r Cons[of "Suc count"] j show ?thesis by auto
    qed
  qed
qed

lemma room_advance:
  "room m count = Some k \<Longrightarrow> length p < k \<Longrightarrow> room m (count + length p) = Some (k - length p)"
  by (auto simp: room_def split: if_splits)

lemma walk_source:
  "source srv n url pages fails \<Longrightarrow>
   walk_pages srv m n url count acc =
     Some (acc @ capped (room m count) (concat pages),
           n + requests_needed (room m count) fails pages)"
proof (induction pages arbitrary: n url count acc)
  case Nil
  then show ?case
    by (cases "fetch_page srv n url")
       (auto simp: walk_pages.simps capped_def split: option.splits if_splits)
next
  case (Cons p ps)
  from Cons.prems obtain data next_link where
    t: "truthy url" and f: "fetch_page srv n url = Inr (data, p)"
    and nl: "py_get data ''@odata.nextLink'' JNull = Inr next_link"
    and rest: "source srv (Suc n) next_link ps fails"
    by (auto split: sum.splits prod.splits)
  show ?case
  proof (cases "room m count")
    case None
    then have r: "room m (count + length p) = None" by (simp add: room_def split: if_splits)
    from Cons.IH[OF rest, of "count + length p" "acc @ p"] r None t f nl
    show ?thesis
      by (subst walk_pages.simps) (simp add: yield_items_room capped_def)
  next
    case (Some k)
    show ?thesis
    proof (cases "k \<le> length p")
      case True
      with Some t f show ?thesis
        by (subst walk_pages.simps) (simp add: yield_items_room capped_def)
    next
      case False
      then have lt: "length p < k" by simp
      from room_advance[OF Some lt]
      have r: "room m (count + length p) = Some (k - length p)" .
      from lt have mn: "min k (length p) = length p" by simp
      from Cons.IH[OF rest, of "count + length p" "acc @ p"] r Some t f nl False lt mn
      show ?thesis
        by (subst walk_pages.simps) (simp add: yield_items_room capped_def)
    qed
  qed
qed

lemmas walker_example_defs =
  three_pages_def broken_third_page_def page_of_def msgs_def build_url_def fetch_page_def
  bind_def dict_get_def room_def capped_def item_bound_def

text \<open>
  Claim C4. Over a source whose pages link up to a last page without a next link, a walk
  with a positive bound \<open>m\<close> ends and produces the first \<open>min m total\<close> elements of the
  pages in page order, where \<open>total\<close> is the number of elements of all pages; it makes
  only the requests for the pages up to the one that holds element number \<open>m\<close>.
\<close>

theorem walk_yields_bounded_prefix:
  assumes "source srv 0 (JStr (build_url url params)) pages False" and "0 < m"
  shows "get_all_pages (Inr tok) srv batch_size url params (Some m) =
           Some (Inr (take (nat m) (concat pages),
                      requests_needed (Some (nat m)) False pages))
         \<and> length (take (nat m) (concat pages)) = min (nat m) (length (concat pages))"
proof -
  from assms(2) have b: "item_bound (Some m) batch_size = m" and r: "room m 0 = Some (nat m)"
    by (simp_all add: item_bound_def room_def)
  from walk_source[OF assms(1), of m 0 "[]"] b r show ?thesis
    by (simp add: get_all_pages_def capped_def min.commute)
qed

text \<open>The scenario of the specification: two elements on each of three pages, bound 5.
  The walk gives five messages after three requests and leaves the sixth message.\<close>

theorem walk_yields_bounded_prefix_witness:
  "get_all_pages (Inr (JStr ''tok'')) three_pages 125 ''https://graph/messages''
     (Some ''top=2'') (Some 5) =
     Some (Inr (msgs [''m1'', ''m2'', ''m3'', ''m4'', ''m5''], 3))
   \<and> get_all_pages (Inr (JStr ''tok'')) three_pages 125 ''https://graph/messages''
     (Some ''top=2'') (Some 3) =
     Some (Inr (msgs [''m1'', ''m2'', ''m3''], 2))"
proof -
  have s: "source three_pages 0 (JStr (build_url ''https://graph/messages'' (Some ''top=2'')))
             [msgs [''m1'', ''m2''], msgs [''m3'', ''m4''], msgs [''m5'', ''m6'']] False"
    by (simp add: walker_example_defs)
  from walk_yields_bounded_prefix [OF s, of 5 "JStr ''tok''" 125]
       walk_yields_bounded_prefix [OF s, of 3 "JStr ''tok''" 125]
  show ?thesis by (simp add: msgs_def)
qed



section \<open>Properties of the pipeline\<close>

lemmas step_defs = log_call_def count_skipped_def count_errored_def count_processed_def
  count_classified_def count_moved_def count_clean_text_def

subsection \<open>The outcome counters\<close>










subsection \<open>Duplicates\<close>

lemma email_exists_clean_text [simp]:
  "email_exists (mongo (count_clean_text st)) mid = email_exists (mongo st) mid"
  by (simp add: count_clean_text_def)




subsection \<open>The document and the calls after it\<close>

lemma build_email_data_fields:
  assumes "build_email_data cfg now mid meta cr label conf reply ents = Inr d"
  shows "map_of d ''message_id'' = Some mid"
    and "map_of d ''classification'' = Some (JStr label)"
    and "map_of d ''prediction'' = Some (JStr label)"
    and "map_of d ''target_folder'' = Some (JStr label)"
    and "map_of d ''confidence'' = Some conf"
    and "map_of d ''response'' = Some reply"
    and "map_of d ''save_as_draft'' = Some (JBool (save_as_draft cfg label))"
  using assms
  by (auto simp: build_email_data_def bind_Inr_iff split: prod.splits)

lemma mark_and_count_calls:
  "calls_made (fst (mark_and_count e mid label st)) =
     calls_made st @ [MarkCall mid (\<not> needs_manual_review label)]"
  by (auto simp: mark_and_count_def Let_def step_defs split: sum.splits)


lemma mark_and_count_snd:
  "snd (mark_and_count e mid label st) = snd (mark_and_count e mid label st')"
  by (auto simp: mark_and_count_def Let_def split: sum.splits)

lemma persist_and_route_calls:
  "\<exists>evs. calls_made (fst (persist_and_route cfg e mid label d st)) =
           calls_made st @ Insert d # evs
         \<and> (\<forall>ev \<in> set evs. route_event cfg mid label ev)"
  by (auto simp: persist_and_route_def Let_def step_defs mark_and_count_calls route_event_def
           split: sum.splits prod.splits)


lemma persist_and_route_snd:
  "snd (persist_and_route cfg e mid label d st) = snd (persist_and_route cfg e mid label d' st')"
  by (auto simp: persist_and_route_def Let_def split: sum.splits prod.splits
           intro: mark_and_count_snd)

subsection \<open>Draft forcing\<close>







subsection \<open>Label coercion\<close>

lemma read_classification_dict:
  "read_classification (JObj r) =
     (JObj r, coerce_label (dict_get r ''label'' (JStr ''uncategorised'')),
      dict_get r ''confidence'' (JNum 0), True)"
  by (simp add: read_classification_def bind_def)

lemma coerce_label_other:
  "\<forall>l \<in> set ALLOWED_LABELS. v \<noteq> JStr l \<Longrightarrow> coerce_label v = ''uncategorised''"
  by (cases v) (auto simp: coerce_label_def)

lemma coerce_label_allowed: "coerce_label v \<in> set ALLOWED_LABELS"
  by (cases v) (auto simp: coerce_label_def ALLOWED_LABELS_def)

lemma generate_reply_total:
  "\<exists>reply. generate_reply get post subject body label ents = Inr reply"
  by (cases "reply_body get post subject body label ents") (auto simp: generate_reply_def)

lemma reply_stage_label: "fst (reply_stage e meta label ents) = label"
  using generate_reply_total[of "reply_get e" "reply_post e" "m_subject meta"
          "m_clean_body meta" label ents]
  by (auto simp: reply_stage_def)

lemma reply_stage_ineligible:
  "label \<notin> set RESPONSE_LABELS \<Longrightarrow> reply_stage e meta label ents = (label, JStr [])"
  by (simp add: reply_stage_def)

lemma build_isl:
  "isl (build_email_data cfg now mid meta (JObj r1) label c1 reply1 ents) =
   isl (build_email_data cfg' now' mid' meta (JObj r2) label' c2 reply2 ents)"
  by (cases "py_len (m_headers meta)"; cases "py_len (m_clean_body meta)";
      cases "ooo_entries ents"; cases "left_entries ents")
     (auto simp: build_email_data_def bind_def split: prod.splits)

lemma process_classified_dict:
  "process_classified cfg e mid meta (JObj r) st =
     (let label = coerce_label (dict_get r ''label'' (JStr ''uncategorised''));
          ents = dict_get r ''entities'' (JObj [])
      in case build_email_data cfg (utcnow e) mid meta (JObj r) label
                (dict_get r ''confidence'' (JNum 0)) (snd (reply_stage e meta label ents))
                ents of
           Inl ex \<Rightarrow> (pre_state cfg meta label st, Inl ex)
         | Inr d \<Rightarrow> persist_and_route cfg e mid label d (pre_state cfg meta label st))"
proof -
  let ?label = "coerce_label (dict_get r ''label'' (JStr ''uncategorised''))"
  let ?ents = "dict_get r ''entities'' (JObj [])"
  obtain reply where rs: "reply_stage e meta ?label ?ents = (?label, reply)"
    using reply_stage_label[of e meta ?label ?ents]
    by (cases "reply_stage e meta ?label ?ents") auto
  show ?thesis
    by (cases "build_email_data cfg (utcnow e) mid meta (JObj r) ?label
                (dict_get r ''confidence'' (JNum 0)) reply ?ents")
       (simp_all add: process_classified_def read_classification_dict rs Let_def pre_state_def)
qed

lemma new_calls_append: "calls_made st' = calls_made st @ evs \<Longrightarrow> new_calls st st' = evs"
  by (simp add: new_calls_def)

lemma pre_state_calls:
  "\<exists>pre. calls_made (pre_state cfg meta label st) = calls_made st @ pre
     \<and> (\<forall>ev \<in> set pre. ev = ClassifyCall (m_clean_body meta)
            \<or> (ev = ReplyCall label \<and> label \<in> set RESPONSE_LABELS)
            \<or> ev = SetBatchId (batch_id cfg))"
  by (auto simp: pre_state_def step_defs)

lemma process_classified_calls:
  "\<forall>ev \<in> set (new_calls st (fst (process_classified cfg e mid meta (JObj r) st))).
     classified_event cfg e mid meta r ev"
proof -
  let ?label = "coerce_label (dict_get r ''label'' (JStr ''uncategorised''))"
  let ?ents = "dict_get r ''entities'' (JObj [])"
  let ?b = "build_email_data cfg (utcnow e) mid meta (JObj r) ?label
               (dict_get r ''confidence'' (JNum 0)) (snd (reply_stage e meta ?label ?ents))
               ?ents"
  obtain pre where pre: "calls_made (pre_state cfg meta ?label st) = calls_made st @ pre"
    and pre_ok: "\<forall>ev \<in> set pre. ev = ClassifyCall (m_clean_body meta)
            \<or> (ev = ReplyCall ?label \<and> ?label \<in> set RESPONSE_LABELS)
            \<or> ev = SetBatchId (batch_id cfg)"
    using pre_state_calls by blast
  from pre_ok have p: "\<forall>ev \<in> set pre. classified_event cfg e mid meta r ev"
    by (auto simp: classified_event_def Let_def)
  show ?thesis
  proof (cases ?b)
    case (Inl ex)
    then have "calls_made (fst (process_classified cfg e mid meta (JObj r) st)) =
                 calls_made st @ pre"
      by (simp add: process_classified_dict Let_def pre)
    from new_calls_append[OF this] p show ?thesis by simp
  next
    case (Inr d)
    obtain evs where evs: "calls_made (fst (persist_and_route cfg e mid ?label d
                              (pre_state cfg meta ?label st))) =
           calls_made (pre_state cfg meta ?label st) @ Insert d # evs"
      and r: "\<forall>ev \<in> set evs. route_event cfg mid ?label ev"
      using persist_and_route_calls by blast
    from Inr evs pre
    have "calls_made (fst (process_classified cfg e mid meta (JObj r) st)) =
            calls_made st @ (pre @ Insert d # evs)"
      by (simp add: process_classified_dict Let_def)
    from new_calls_append[OF this]
    have n: "new_calls st (fst (process_classified cfg e mid meta (JObj r) st)) =
               pre @ Insert d # evs" .
    have i: "classified_event cfg e mid meta r (Insert d)"
      using Inr by (simp add: classified_event_def Let_def)
    have "\<forall>ev \<in> set evs. classified_event cfg e mid meta r ev"
      using r by (auto simp: classified_event_def route_event_def Let_def split: event.splits)
    with n p i show ?thesis by auto
  qed
qed

lemma dict_get_other: "k \<noteq> k' \<Longrightarrow> dict_get ((k', v) # r) k d = dict_get r k d"
  by (simp add: dict_get_def)

lemma process_classified_confidence:
  "isl (snd (process_classified cfg e mid meta (JObj ((''confidence'', c) # r)) st)) =
   isl (snd (process_classified cfg e mid meta (JObj r) st))"
proof -
  let ?label = "coerce_label (dict_get r ''label'' (JStr ''uncategorised''))"
  let ?ents = "dict_get r ''entities'' (JObj [])"
  let ?reply = "snd (reply_stage e meta ?label ?ents)"
  let ?b1 = "build_email_data cfg (utcnow e) mid meta (JObj ((''confidence'', c) # r)) ?label
               (dict_get ((''confidence'', c) # r) ''confidence'' (JNum 0)) ?reply ?ents"
  let ?b2 = "build_email_data cfg (utcnow e) mid meta (JObj r) ?label
               (dict_get r ''confidence'' (JNum 0)) ?reply ?ents"
  have same: "isl ?b1 = isl ?b2" by (rule build_isl)
  have l: "dict_get ((''confidence'', c) # r) ''label'' (JStr ''uncategorised'')
             = dict_get r ''label'' (JStr ''uncategorised'')"
    and en: "dict_get ((''confidence'', c) # r) ''entities'' (JObj []) = ?ents"
    by (simp_all add: dict_get_other)
  show ?thesis
  proof (cases ?b2)
    case (Inl ex)
    with same obtain ex' where "?b1 = Inl ex'" by (cases ?b1) auto
    with Inl show ?thesis
      by (simp add: process_classified_dict Let_def l en)
  next
    case (Inr d)
    with same obtain d' where "?b1 = Inr d'" by (cases ?b1) auto
    with Inr show ?thesis
      using persist_and_route_snd[of cfg e mid ?label d' "pre_state cfg meta ?label st" d
              "pre_state cfg meta ?label st"]
      by (simp add: process_classified_dict Let_def l en)
  qed
qed

text \<open>
  Claim C6. When the classifier returns a dictionary whose label is not one of the allowed
  labels, the document the message is stored with has the label \<^verbatim>\<open>uncategorised\<close>, the
  move goes to the folder of \<^verbatim>\<open>uncategorised\<close>, and no reply is asked for. The document
  holds the confidence as the classifier gave it, and whether the message fails does not
  depend on the confidence value.
\<close>

theorem label_coercion:
  assumes "\<forall>l \<in> set ALLOWED_LABELS. dict_get r ''label'' (JStr ''uncategorised'') \<noteq> JStr l"
  shows "(\<forall>ev \<in> set (new_calls st (fst (process_classified cfg e mid meta (JObj r) st))).
            case ev of
              Insert d \<Rightarrow> map_of d ''classification'' = Some (JStr ''uncategorised'')
                        \<and> map_of d ''confidence'' = Some (dict_get r ''confidence'' (JNum 0))
            | MoveCall m f \<Rightarrow> f = dict_get (folder_mapping cfg) ''uncategorised'' JNull
            | ReplyCall l \<Rightarrow> False
            | _ \<Rightarrow> True)
       \<and> isl (snd (process_classified cfg e mid meta (JObj ((''confidence'', c) # r)) st)) =
         isl (snd (process_classified cfg e mid meta (JObj r) st))"
proof -
  from assms
  have u: "coerce_label (dict_get r ''label'' (JStr ''uncategorised'')) = ''uncategorised''"
    by (rule coerce_label_other)
  have nr: "''uncategorised'' \<notin> set RESPONSE_LABELS" by (simp add: RESPONSE_LABELS_def)
  have "case ev of
              Insert d \<Rightarrow> map_of d ''classification'' = Some (JStr ''uncategorised'')
                        \<and> map_of d ''confidence'' = Some (dict_get r ''confidence'' (JNum 0))
            | MoveCall m f \<Rightarrow> f = dict_get (folder_mapping cfg) ''uncategorised'' JNull
            | ReplyCall l \<Rightarrow> False
            | _ \<Rightarrow> True"
    if "ev \<in> set (new_calls st (fst (process_classified cfg e mid meta (JObj r) st)))" for ev
  proof -
    from that process_classified_calls have "classified_event cfg e mid meta r ev" by blast
    with u nr show ?thesis
      by (cases ev)
         (auto simp: classified_event_def route_event_def Let_def build_email_data_fields)
  qed
  with process_classified_confidence show ?thesis by blast
qed

text \<open>A label \<^verbatim>\<open>weird\<close> with the confidence \<^verbatim>\<open>"high"\<close>: the message is stored as
  \<^verbatim>\<open>uncategorised\<close> with that confidence, moved to the folder of \<^verbatim>\<open>uncategorised\<close>, and
  the block ends without an exception.\<close>

lemma invoice_meta_extracted: "extract_metadata invoice_msg = Inr invoice_meta"
  by code_simp

theorem label_coercion_witness:
  "list_all (\<lambda>ev. case ev of
               Insert d \<Rightarrow> map_of d ''classification'' = Some (JStr ''uncategorised'')
                         \<and> map_of d ''confidence'' = Some (JStr ''high'')
             | MoveCall m f \<Rightarrow> f = JStr ''folder-uncategorised''
             | ReplyCall l \<Rightarrow> False
             | _ \<Rightarrow> True)
     (new_calls fresh_pipeline
        (fst (process_classified drafts_config (world (JObj weird_result)) (JStr ''AAMk3'')
                invoice_meta (JObj weird_result) fresh_pipeline)))
   \<and> length (new_calls fresh_pipeline
        (fst (process_classified drafts_config (world (JObj weird_result)) (JStr ''AAMk3'')
                invoice_meta (JObj weird_result) fresh_pipeline))) = 6
   \<and> \<not> isl (snd (process_classified drafts_config (world (JObj weird_result)) (JStr ''AAMk3'')
                invoice_meta (JObj weird_result) fresh_pipeline))"
proof -
  have h: "\<forall>l \<in> set ALLOWED_LABELS.
             dict_get weird_result ''label'' (JStr ''uncategorised'') \<noteq> JStr l"
    by (simp add: ALLOWED_LABELS_def weird_result_def dict_get_def)
  have f: "dict_get (folder_mapping drafts_config) ''uncategorised'' JNull
             = JStr ''folder-uncategorised''"
    and c: "dict_get weird_result ''confidence'' (JNum 0) = JStr ''high''"
    by (simp_all add: drafts_config_def weird_result_def dict_get_def)
  have n: "length (new_calls fresh_pipeline
        (fst (process_classified drafts_config (world (JObj weird_result)) (JStr ''AAMk3'')
                invoice_meta (JObj weird_result) fresh_pipeline))) = 6"
    by code_simp
  have x: "\<not> isl (snd (process_classified drafts_config (world (JObj weird_result))
                (JStr ''AAMk3'') invoice_meta (JObj weird_result)
                fresh_pipeline))"
    by code_simp
  from label_coercion [OF h, of fresh_pipeline drafts_config "world (JObj weird_result)"
      "JStr ''AAMk3''" invoice_meta] f c n x
  show ?thesis by (simp add: list_all_iff cong: event.case_cong)
qed

subsection \<open>Reply generation\<close>

text \<open>When the reply service is unavailable or the call fails, \<^verbatim>\<open>generate_reply\<close> returns
  the empty string and raises nothing, so step 4 keeps the label.\<close>

lemma reply_failure_keeps_label:
  assumes "label \<in> set RESPONSE_LABELS"
      and "health_check (reply_get e) \<noteq> Inr True
           \<or> isl (post_json (reply_post e
                  (reply_payload (m_subject meta) (m_clean_body meta) label ents)))"
  shows "reply_stage e meta label ents = (label, JStr [])"
  using assms
  by (cases "health_check (reply_get e)")
     (auto simp: reply_stage_def generate_reply_def reply_body_def bind_def Let_def
           split: sum.splits)

text \<open>
  Claim C5 at a failing reply service. The message is classified as
  \<^verbatim>\<open>invoice_request_no_info\<close> and the health check of the reply service cannot connect.
  The message is stored with an empty reply and with the label
  \<^verbatim>\<open>invoice_request_no_info\<close>, not \<^verbatim>\<open>uncategorised\<close>; it is moved to the folder of that
  label, marked read and counted as processed.
\<close>

theorem reply_failure_run:
  "map (\<lambda>doc. (map_of doc ''classification'', map_of doc ''response''))
     (mongo (process_single_email drafts_config reply_down_world invoice_msg fresh_pipeline))
     = [(Some (JStr ''invoice_request_no_info''), Some (JStr []))]
   \<and> drop 4 (calls_made (process_single_email drafts_config reply_down_world invoice_msg
                fresh_pipeline))
     = [MoveCall (JStr ''AAMk3'') (JStr ''folder-invoice''),
        UpdateId (JStr ''AAMk3'') (JStr ''AAMk3-moved''),
        MarkCall (JStr ''AAMk3-moved'') True]
   \<and> tally (process_single_email drafts_config reply_down_world invoice_msg fresh_pipeline)
     = (0, 1, 0)"
  by code_simp

end
